theory Spec2Isabelle
  imports Complex_Main
begin

section \<open>Conventions of the embedding\<close>

text \<open>
  The program is \<^verbatim>\<open>src/portfolio_dashboard.py\<close>. Python floats are modelled by
  \<^typ>\<open>real\<close>: sums, products and quotients are exact, so a statement proved here is a
  statement about the formulas of the source, not about binary rounding. Python dicts
  whose key set is fixed by the code that builds them are records (one field per key; a
  key that only some return paths set is an \<open>option\<close> field, \<open>None\<close> standing for
  Python's \<^verbatim>\<open>None\<close> or for the absent key, as noted at each record). Dicts keyed by
  data (work packages by code, cash-flow quarters by period) are association lists
  in insertion order; \<^verbatim>\<open>d.values()\<close> is \<open>map snd\<close> and \<^verbatim>\<open>len(d)\<close> is
  \<open>length\<close>. Text is ASCII: \<^verbatim>\<open>str.lower\<close> and \<^verbatim>\<open>str.upper\<close> act on the letters A-Z
  and a-z. The emoji that the source returns next to its labels are values of the
  datatype \<open>icon\<close>.
\<close>

section \<open>Strings\<close>

definition lower_char :: "char \<Rightarrow> char" where
  "lower_char c =
     (case map_of (zip ''ABCDEFGHIJKLMNOPQRSTUVWXYZ'' ''abcdefghijklmnopqrstuvwxyz'') c of
        Some l \<Rightarrow> l | None \<Rightarrow> c)"

definition upper_char :: "char \<Rightarrow> char" where
  "upper_char c =
     (case map_of (zip ''abcdefghijklmnopqrstuvwxyz'' ''ABCDEFGHIJKLMNOPQRSTUVWXYZ'') c of
        Some u \<Rightarrow> u | None \<Rightarrow> c)"

definition lower :: "string \<Rightarrow> string" where
  "lower s = map lower_char s"

definition upper :: "string \<Rightarrow> string" where
  "upper s = map upper_char s"

text \<open>\<^verbatim>\<open>s.startswith(p)\<close>, and \<^verbatim>\<open>sub in s\<close> for strings (a contiguous occurrence).\<close>

fun startswith :: "string \<Rightarrow> string \<Rightarrow> bool" where
  "startswith s [] = True"
| "startswith [] (p # ps) = False"
| "startswith (c # cs) (p # ps) = (c = p \<and> startswith cs ps)"

fun str_in :: "string \<Rightarrow> string \<Rightarrow> bool" where
  "str_in sub [] = (sub = [])"
| "str_in sub (c # cs) = (startswith (c # cs) sub \<or> str_in sub cs)"

section \<open>Work packages\<close>

text \<open>
  The dict built per cost row by \<^verbatim>\<open>parse_excel_template_v24\<close> (lines 777-789); every
  key is always set there, so the defaults of the later \<^verbatim>\<open>wp.get(key, default)\<close> calls
  are never taken.
\<close>

record work_package =
  wp_code :: string
  wp_description :: string
  wp_as_sold :: real
  wp_committed :: real
  wp_ctc :: real
  wp_fct_n :: real
  wp_fct_n1 :: real
  wp_actuals :: real
  wp_variance_pct :: real
  wp_commitment_ratio :: real
  wp_is_risk_contingency :: bool

type_synonym work_packages = "(string \<times> work_package) list"

definition wp_values :: "work_packages \<Rightarrow> work_package list" where
  "wp_values wps = map snd wps"

text \<open>
  The test \<^verbatim>\<open>'risk' in d.lower() and 'contingenc' in d.lower()\<close>, written out in the
  source at lines 185-186, 776, 1123-1124 and 1168-1169.
\<close>

definition risk_contingency_desc :: "string \<Rightarrow> bool" where
  "risk_contingency_desc d = (str_in ''risk'' (lower d) \<and> str_in ''contingenc'' (lower d))"

section \<open>Period variance\<close>

text \<open>
  \<^verbatim>\<open>calculate_period_variance\<close> (lines 362-372). Every caller passes floats, so the
  \<^verbatim>\<open>None\<close> and conversion-failure paths of the source are not reachable from them.
\<close>

definition calculate_period_variance :: "real \<Rightarrow> real \<Rightarrow> real" where
  "calculate_period_variance current_value previous_value =
     (if previous_value = 0 then (if current_value > 0 then 100 else 0)
      else ((current_value - previous_value) / \<bar>previous_value\<bar>) * 100)"

section \<open>Contingency efficiency engine\<close>

datatype icon =
    GreenCircle | BlueSquare | YellowCircle | OrangeCircle | RedCircle | Dash
  | ArrowUpRight | ArrowDownRight | ArrowRight

text \<open>
  The dict returned by \<^verbatim>\<open>calculate_contingency_metrics\<close>. The early return (lines
  190-202) sets \<^verbatim>\<open>efficiency\<close> to \<^verbatim>\<open>None\<close> and has no \<^verbatim>\<open>remaining_amount\<close>,
  \<^verbatim>\<open>remaining_percentage\<close>, \<^verbatim>\<open>trend_icon\<close>, \<^verbatim>\<open>early_consumption\<close> and
  \<^verbatim>\<open>recent_consumption\<close> keys: those fields are options.
\<close>

record contingency_metrics =
  has_contingency :: bool
  contingency_as_sold :: real
  contingency_fct_n1 :: real
  contingency_fct_n :: real
  consumed_amount :: real
  consumed_percentage :: real
  remaining_amount :: "real option"
  remaining_percentage :: "real option"
  efficiency :: "real option"
  trend :: string
  trend_icon :: "icon option"
  status :: string
  status_icon :: icon
  status_color :: string
  early_consumption :: "real option"
  recent_consumption :: "real option"

definition risk_contingencies_of :: "work_packages \<Rightarrow> work_package list" where
  "risk_contingencies_of wps = filter (\<lambda>wp. risk_contingency_desc (wp_description wp)) (wp_values wps)"

definition contingency_trend :: "real \<Rightarrow> real \<Rightarrow> string \<times> icon" where
  "contingency_trend early recent =
     (if early > 0 \<and> recent > early * 1.2 then (''Accelerating'', ArrowUpRight)
      else if recent < early * 0.8 then (''Improving'', ArrowDownRight)
      else (''Stable'', ArrowRight))"

definition contingency_status :: "real \<Rightarrow> string \<times> icon \<times> string" where
  "contingency_status eff =
     (if eff \<ge> 150 then (''Excellent'', GreenCircle, ''success'')
      else if eff \<ge> 120 then (''Good'', GreenCircle, ''success'')
      else if eff \<ge> 80 then (''On Track'', BlueSquare, ''info'')
      else if eff \<ge> 50 then (''Warning'', YellowCircle, ''warning'')
      else (''Critical'', RedCircle, ''error''))"

text \<open>
  The locals \<^verbatim>\<open>consumed_percentage\<close> (line 211) and \<^verbatim>\<open>efficiency\<close> (lines 214-220,
  the formula and then the cap) of \<^verbatim>\<open>calculate_contingency_metrics\<close>.
\<close>

definition consumed_percentage_of :: "real \<Rightarrow> real \<Rightarrow> real" where
  "consumed_percentage_of c_as_sold consumed_amt =
     (if c_as_sold > 0 then consumed_amt / c_as_sold * 100 else 0)"

definition efficiency_of :: "real \<Rightarrow> real \<Rightarrow> real" where
  "efficiency_of consumed_pct poc_current =
     (let eff = (if poc_current > 0 then (2 - consumed_pct / poc_current) * 100 else 200)
      in max 0 (min 200 eff))"

definition calculate_contingency_metrics :: "work_packages \<Rightarrow> real \<Rightarrow> contingency_metrics" where
  "calculate_contingency_metrics wps poc_current =
     (let risk_contingencies = risk_contingencies_of wps in
      if risk_contingencies = [] then
        \<lparr> has_contingency = False,
          contingency_as_sold = 0, contingency_fct_n1 = 0, contingency_fct_n = 0,
          consumed_amount = 0, consumed_percentage = 0,
          remaining_amount = None, remaining_percentage = None,
          efficiency = None,
          trend = ''No Contingency'', trend_icon = None,
          status = ''N/A'', status_icon = Dash, status_color = ''info'',
          early_consumption = None, recent_consumption = None \<rparr>
      else
        let c_as_sold = sum_list (map wp_as_sold risk_contingencies);
            c_fct_n1 = sum_list (map wp_fct_n1 risk_contingencies);
            c_fct_n = sum_list (map wp_fct_n risk_contingencies);
            consumed = c_as_sold - c_fct_n;
            consumed_pct = consumed_percentage_of c_as_sold consumed;
            eff = efficiency_of consumed_pct poc_current;
            early = (if c_as_sold > 0 then c_as_sold - c_fct_n1 else 0);
            recent = (if c_fct_n1 > 0 then c_fct_n1 - c_fct_n else 0);
            tr = contingency_trend early recent;
            st = contingency_status eff
        in
        \<lparr> has_contingency = True,
          contingency_as_sold = c_as_sold, contingency_fct_n1 = c_fct_n1,
          contingency_fct_n = c_fct_n,
          consumed_amount = consumed, consumed_percentage = consumed_pct,
          remaining_amount = Some c_fct_n,
          remaining_percentage = Some (if c_as_sold > 0 then c_fct_n / c_as_sold * 100 else 0),
          efficiency = Some eff,
          trend = fst tr, trend_icon = Some (snd tr),
          status = fst st, status_icon = fst (snd st), status_color = snd (snd st),
          early_consumption = Some early, recent_consumption = Some recent \<rparr>)"

section \<open>Example inputs\<close>

definition example_wp :: "string \<Rightarrow> string \<Rightarrow> real \<Rightarrow> real \<Rightarrow> real \<Rightarrow> real \<Rightarrow> string \<times> work_package" where
  "example_wp c d a n1 n v =
     (c, \<lparr> wp_code = c, wp_description = d, wp_as_sold = a, wp_committed = 0, wp_ctc = 0,
           wp_fct_n = n, wp_fct_n1 = n1, wp_actuals = 0, wp_variance_pct = v,
           wp_commitment_ratio = 0, wp_is_risk_contingency = risk_contingency_desc d \<rparr>)"

section \<open>Traffic-light classifier\<close>

text \<open>
  A float argument is a real number or NaN; every ordering comparison with NaN is
  false, as in Python. A threshold band is a dict from tier name to cutoff; a subscript
  on a missing key raises \<^verbatim>\<open>KeyError\<close>.
\<close>

datatype py_error = KeyError

datatype pyfloat = Num real | NaN

fun ge_float :: "pyfloat \<Rightarrow> real \<Rightarrow> bool" where
  "ge_float (Num v) t = (v \<ge> t)"
| "ge_float NaN t = False"

fun le_float :: "pyfloat \<Rightarrow> real \<Rightarrow> bool" where
  "le_float (Num v) t = (v \<le> t)"
| "le_float NaN t = False"

type_synonym thresholds = "string \<rightharpoonup> real"

text \<open>
  \<^verbatim>\<open>get_traffic_light_status\<close> (lines 277-298). The cutoffs are read one after the
  other, each only when the comparisons before it have failed.
\<close>

definition get_traffic_light_status ::
  "pyfloat \<Rightarrow> thresholds \<Rightarrow> bool \<Rightarrow> py_error + (icon \<times> string \<times> string)" where
  "get_traffic_light_status val th reverse =
     (if reverse then
        (case th ''excellent'' of None \<Rightarrow> Inl KeyError | Some e \<Rightarrow>
           if le_float val e then Inr (GreenCircle, ''Excellent'', ''excellent'')
           else (case th ''good'' of None \<Rightarrow> Inl KeyError | Some g \<Rightarrow>
             if le_float val g then Inr (GreenCircle, ''Good'', ''good'')
             else (case th ''warning'' of None \<Rightarrow> Inl KeyError | Some w \<Rightarrow>
               if le_float val w then Inr (YellowCircle, ''Warning'', ''warning'')
               else Inr (RedCircle, ''Critical'', ''critical''))))
      else
        (case th ''excellent'' of None \<Rightarrow> Inl KeyError | Some e \<Rightarrow>
           if ge_float val e then Inr (GreenCircle, ''Excellent'', ''excellent'')
           else (case th ''good'' of None \<Rightarrow> Inl KeyError | Some g \<Rightarrow>
             if ge_float val g then Inr (GreenCircle, ''Good'', ''good'')
             else if (case th ''stable'' of None \<Rightarrow> False | Some s \<Rightarrow> ge_float val s)
               then Inr (BlueSquare, ''Stable'', ''stable'')
             else (case th ''warning'' of None \<Rightarrow> Inl KeyError | Some w \<Rightarrow>
               if ge_float val w then Inr (YellowCircle, ''Warning'', ''warning'')
               else Inr (RedCircle, ''Critical'', ''critical'')))))"

text \<open>
  The cascade as the specification words it, for a band with cutoffs \<open>e\<close>
  (excellent), \<open>g\<close> (good), \<open>w\<close> (warning) and an optional stable cutoff \<open>s\<close>;
  NaN is given the worst tier.
\<close>

fun spec_classify :: "bool \<Rightarrow> real \<Rightarrow> real \<Rightarrow> real option \<Rightarrow> real \<Rightarrow> pyfloat \<Rightarrow> string" where
  "spec_classify reverse e g s w NaN = ''critical''"
| "spec_classify False e g s w (Num v) =
     (if v \<ge> e then ''excellent''
      else if v \<ge> g then ''good''
      else if s \<noteq> None \<and> v \<ge> the s then ''stable''
      else if v \<ge> w then ''warning''
      else ''critical'')"
| "spec_classify True e g s w (Num v) =
     (if v \<le> e then ''excellent''
      else if v \<le> g then ''good''
      else if v \<le> w then ''warning''
      else ''critical'')"

text \<open>The order of the tiers, best last.\<close>

definition tier_rank :: "string \<Rightarrow> nat" where
  "tier_rank t =
     (if t = ''excellent'' then 4 else if t = ''good'' then 3 else if t = ''stable'' then 2
      else if t = ''warning'' then 1 else 0)"

definition status_tier :: "py_error + (icon \<times> string \<times> string) \<Rightarrow> string option" where
  "status_tier r = (case r of Inl err \<Rightarrow> None | Inr (ic, label, tier) \<Rightarrow> Some tier)"

text \<open>
  Two bands of \<^verbatim>\<open>EXECUTIVE_THRESHOLDS\<close> (lines 34 and 35); the second is the one the
  source classifies in reverse mode (lines 1503, 3534, 4193).
\<close>

definition revenue_growth_band :: thresholds where
  "revenue_growth_band =
     [''excellent'' \<mapsto> 15, ''good'' \<mapsto> 5, ''stable'' \<mapsto> -2, ''warning'' \<mapsto> -5, ''critical'' \<mapsto> -15]"

definition committed_vs_budget_band :: thresholds where
  "committed_vs_budget_band =
     [''excellent'' \<mapsto> 0.9, ''good'' \<mapsto> 1.0, ''warning'' \<mapsto> 1.1, ''critical'' \<mapsto> 1.2]"

section \<open>Cost breakdown sheet: rows, work packages and margins\<close>

text \<open>
  The dict \<^verbatim>\<open>project_data['cost_analysis']\<close> as \<^verbatim>\<open>parse_excel_template_v24\<close>
  initialises it (lines 719-732), with the flag \<^verbatim>\<open>selling_price_found\<close> that line 824
  adds.
\<close>

record cost_analysis =
  total_as_sold :: real
  total_committed :: real
  total_fct_n :: real
  total_actuals :: real
  ec_total_as_sold :: real
  ec_total_fct_n :: real
  ic_total_as_sold :: real
  ic_total_fct_n :: real
  cm1_value_as_sold :: real
  cm1_value_fct_n :: real
  cm1_pct_as_sold :: real
  cm1_pct_fct_n :: real
  cm2_value_as_sold :: real
  cm2_value_fct_n :: real
  cm2_pct_as_sold :: real
  cm2_pct_fct_n :: real
  committed_ratio :: real
  cost_variance_pct :: real
  cm1_value_fct_n1 :: real
  cm1_pct_fct_n1 :: real
  cm2_value_fct_n1 :: real
  cm2_pct_fct_n1 :: real
  ec_total_fct_n1 :: real
  ic_total_fct_n1 :: real
  selling_price_as_sold :: real
  selling_price_fct_n1 :: real
  selling_price_fct_n :: real
  total_fct_n1 :: real
  selling_price_found :: bool

definition cost_analysis_init :: cost_analysis where
  "cost_analysis_init =
     \<lparr> total_as_sold = 0, total_committed = 0, total_fct_n = 0, total_actuals = 0,
       ec_total_as_sold = 0, ec_total_fct_n = 0, ic_total_as_sold = 0, ic_total_fct_n = 0,
       cm1_value_as_sold = 0, cm1_value_fct_n = 0, cm1_pct_as_sold = 0, cm1_pct_fct_n = 0,
       cm2_value_as_sold = 0, cm2_value_fct_n = 0, cm2_pct_as_sold = 0, cm2_pct_fct_n = 0,
       committed_ratio = 0, cost_variance_pct = 0,
       cm1_value_fct_n1 = 0, cm1_pct_fct_n1 = 0, cm2_value_fct_n1 = 0, cm2_pct_fct_n1 = 0,
       ec_total_fct_n1 = 0, ic_total_fct_n1 = 0,
       selling_price_as_sold = 0, selling_price_fct_n1 = 0, selling_price_fct_n = 0,
       total_fct_n1 = 0, selling_price_found = False \<rparr>"

text \<open>
  One row of the sheet, after the cell reads of lines 745-759: the item code as text
  (empty for an empty cell), the description, and the amounts after \<^verbatim>\<open>safe_float\<close>.
\<close>

record cost_row =
  row_item :: string
  row_description :: string
  row_as_sold :: real
  row_committed :: real
  row_ctc :: real
  row_fct_n :: real
  row_fct_n1 :: real
  row_actuals :: real

definition is_space :: "char \<Rightarrow> bool" where
  "is_space c = (c \<in> set [CHR '' '', CHR 0x09, CHR 0x0A, CHR 0x0B, CHR 0x0C, CHR 0x0D])"

definition strip :: "string \<Rightarrow> string" where
  "strip s = rev (dropWhile is_space (rev (dropWhile is_space s)))"

text \<open>The dict built at lines 777-789.\<close>

definition make_work_package ::
  "string \<Rightarrow> string \<Rightarrow> real \<Rightarrow> real \<Rightarrow> real \<Rightarrow> real \<Rightarrow> real \<Rightarrow> real \<Rightarrow> work_package" where
  "make_work_package item_str description as_sold committed ctc fct_n fct_n1 actuals =
     \<lparr> wp_code = item_str,
       wp_description = description,
       wp_as_sold = as_sold,
       wp_committed = committed,
       wp_ctc = ctc,
       wp_fct_n = fct_n,
       wp_fct_n1 = fct_n1,
       wp_actuals = actuals,
       wp_variance_pct = (if as_sold > 0 then calculate_period_variance fct_n as_sold else 0),
       wp_commitment_ratio = (if as_sold > 0 then committed / as_sold else 0),
       wp_is_risk_contingency = risk_contingency_desc description \<rparr>"

text \<open>\<^verbatim>\<open>d[k] = v\<close> on an insertion-ordered dict.\<close>

fun dict_set :: "('k \<times> 'v) list \<Rightarrow> 'k \<Rightarrow> 'v \<Rightarrow> ('k \<times> 'v) list" where
  "dict_set [] k v = [(k, v)]"
| "dict_set ((k', v') # kvs) k v =
     (if k' = k then (k, v) # kvs else (k', v') # dict_set kvs k v)"

text \<open>
  The body of the row loop (lines 743-821) on the pair of the cost analysis and the
  work-package dict. The counters \<^verbatim>\<open>work_package_count\<close> and \<^verbatim>\<open>total_wp_value\<close> are
  never read and are left out.
\<close>

definition parse_cost_row ::
  "cost_row \<Rightarrow> cost_analysis \<times> work_packages \<Rightarrow> cost_analysis \<times> work_packages" where
  "parse_cost_row r st =
     (let ca = fst st; wps = snd st in
      if row_item r = [] then st
      else
        let item_str = strip (row_item r);
            item_upper = upper item_str;
            description = row_description r
        in
        if (str_in ''SELLING PRICE'' item_upper \<or> str_in ''SELLING PRICE'' (upper description))
           \<and> \<not> selling_price_found ca
        then (ca\<lparr> selling_price_as_sold := row_as_sold r,
                   selling_price_fct_n1 := row_fct_n1 r,
                   selling_price_fct_n := row_fct_n r,
                   selling_price_found := True \<rparr>, wps)
        else
          let wps' =
                (if \<not> (\<exists>keyword \<in> set [''TOTAL'', ''CM1'', ''CM2'', ''SELLING''].
                          str_in keyword item_upper)
                 then dict_set wps item_str
                        (make_work_package item_str description (row_as_sold r)
                           (row_committed r) (row_ctc r) (row_fct_n r) (row_fct_n1 r)
                           (row_actuals r))
                 else wps);
              ca' =
                (if item_upper = ''TOTAL'' then
                   ca\<lparr> total_as_sold := row_as_sold r,
                        total_committed := row_committed r,
                        total_fct_n := row_fct_n r,
                        total_fct_n1 := row_fct_n1 r,
                        total_actuals := row_actuals r,
                        cost_variance_pct :=
                          calculate_period_variance (row_fct_n r) (row_as_sold r) \<rparr>
                 else if str_in ''TOTAL EC'' item_upper
                         \<or> (str_in ''EC'' item_upper \<and> str_in ''TOTAL'' item_upper) then
                   ca\<lparr> ec_total_as_sold := row_as_sold r,
                        ec_total_fct_n1 := row_fct_n1 r,
                        ec_total_fct_n := row_fct_n r \<rparr>
                 else if str_in ''TOTAL IL'' item_upper
                         \<or> (str_in ''IL'' item_upper \<and> str_in ''TOTAL'' item_upper)
                         \<or> (str_in ''IC'' item_upper \<and> str_in ''TOTAL'' item_upper) then
                   ca\<lparr> ic_total_as_sold := row_as_sold r,
                        ic_total_fct_n1 := row_fct_n1 r,
                        ic_total_fct_n := row_fct_n r \<rparr>
                 else ca)
          in (ca', wps'))"

text \<open>The loop over the rows, from the initial cost analysis and the empty dict.\<close>

definition parse_cost_rows :: "cost_row list \<Rightarrow> cost_analysis \<times> work_packages" where
  "parse_cost_rows rows = fold parse_cost_row rows (cost_analysis_init, [])"

text \<open>
  Lines 827-898: the selling-price fallback to the contract value, the contribution
  margins of the three periods, and the committed ratio.
\<close>

definition selling_price_fallback :: "real \<Rightarrow> cost_analysis \<Rightarrow> cost_analysis" where
  "selling_price_fallback contract_value ca =
     (if \<not> selling_price_found ca then
        ca\<lparr> selling_price_as_sold := contract_value,
             selling_price_fct_n1 := contract_value,
             selling_price_fct_n := contract_value \<rparr>
      else ca)"

definition margins_as_sold :: "cost_analysis \<Rightarrow> cost_analysis" where
  "margins_as_sold ca =
     (let sp = selling_price_as_sold ca in
      if sp > 0 then
        let ec = ec_total_as_sold ca; ic = ic_total_as_sold ca in
        ca\<lparr> cm1_value_as_sold := sp - ec,
             cm1_pct_as_sold := (if sp > 0 then (sp - ec) / sp * 100 else 0),
             cm2_value_as_sold := sp - ec - ic,
             cm2_pct_as_sold := (if sp > 0 then (sp - ec - ic) / sp * 100 else 0) \<rparr>
      else ca)"

definition margins_fct_n1 :: "cost_analysis \<Rightarrow> cost_analysis" where
  "margins_fct_n1 ca =
     (let sp = selling_price_fct_n1 ca in
      if sp > 0 then
        let ec = ec_total_fct_n1 ca; ic = ic_total_fct_n1 ca in
        ca\<lparr> cm1_value_fct_n1 := sp - ec,
             cm1_pct_fct_n1 := (if sp > 0 then (sp - ec) / sp * 100 else 0),
             cm2_value_fct_n1 := sp - ec - ic,
             cm2_pct_fct_n1 := (if sp > 0 then (sp - ec - ic) / sp * 100 else 0) \<rparr>
      else ca)"

definition margins_fct_n :: "cost_analysis \<Rightarrow> cost_analysis" where
  "margins_fct_n ca =
     (let sp = selling_price_fct_n ca in
      if sp > 0 then
        let ec = ec_total_fct_n ca; ic = ic_total_fct_n ca in
        ca\<lparr> cm1_value_fct_n := sp - ec,
             cm1_pct_fct_n := (if sp > 0 then (sp - ec) / sp * 100 else 0),
             cm2_value_fct_n := sp - ec - ic,
             cm2_pct_fct_n := (if sp > 0 then (sp - ec - ic) / sp * 100 else 0) \<rparr>
      else ca)"

definition set_committed_ratio :: "cost_analysis \<Rightarrow> cost_analysis" where
  "set_committed_ratio ca =
     (if total_as_sold ca > 0 then ca\<lparr> committed_ratio := total_committed ca / total_as_sold ca \<rparr>
      else ca)"

definition derive_margins :: "real \<Rightarrow> cost_analysis \<Rightarrow> cost_analysis" where
  "derive_margins contract_value ca =
     set_committed_ratio (margins_fct_n (margins_fct_n1 (margins_as_sold
       (selling_price_fallback contract_value ca))))"

text \<open>The cost analysis and the work packages of a parsed cost sheet.\<close>

definition parse_cost_breakdown :: "cost_row list \<Rightarrow> real \<Rightarrow> cost_analysis \<times> work_packages" where
  "parse_cost_breakdown rows contract_value =
     (let st = parse_cost_rows rows in (derive_margins contract_value (fst st), snd st))"

definition example_row :: "string \<Rightarrow> string \<Rightarrow> real \<Rightarrow> real \<Rightarrow> real \<Rightarrow> cost_row" where
  "example_row item d a n1 n =
     \<lparr> row_item = item, row_description = d, row_as_sold = a, row_committed = 0, row_ctc = 0,
       row_fct_n = n, row_fct_n1 = n1, row_actuals = 0 \<rparr>"

text \<open>The state of the margin fields before lines 852-892 run.\<close>

definition margins_unset :: "cost_analysis \<Rightarrow> bool" where
  "margins_unset ca =
     (cm1_value_as_sold ca = 0 \<and> cm1_pct_as_sold ca = 0
      \<and> cm2_value_as_sold ca = 0 \<and> cm2_pct_as_sold ca = 0
      \<and> cm1_value_fct_n1 ca = 0 \<and> cm1_pct_fct_n1 ca = 0
      \<and> cm2_value_fct_n1 ca = 0 \<and> cm2_pct_fct_n1 ca = 0
      \<and> cm1_value_fct_n ca = 0 \<and> cm1_pct_fct_n ca = 0
      \<and> cm2_value_fct_n ca = 0 \<and> cm2_pct_fct_n ca = 0)"

text \<open>What lines 786-787 store in a work package.\<close>

definition wp_derived_ok :: "work_package \<Rightarrow> bool" where
  "wp_derived_ok wp =
     (wp_variance_pct wp =
        (if wp_as_sold wp > 0 then calculate_period_variance (wp_fct_n wp) (wp_as_sold wp) else 0)
      \<and> wp_commitment_ratio wp =
        (if wp_as_sold wp > 0 then wp_committed wp / wp_as_sold wp else 0)
      \<and> wp_is_risk_contingency wp = risk_contingency_desc (wp_description wp))"

section \<open>Project records\<close>

text \<open>
  An entry of \<^verbatim>\<open>project_data['revenues']\<close> (lines 602-606) and an entry of
  \<^verbatim>\<open>project_data['cash_flow_quarterly']\<close> (lines 917-923).
\<close>

record period_values =
  n_ptd :: real
  n1_ptd :: real
  n_mtd :: real

record cash_quarter =
  cq_as_sold :: real
  cq_fct_n1 :: real
  cq_fct_n :: real
  cq_variance_n_vs_sold :: real
  cq_variance_n_vs_n1 :: real

text \<open>
  A risk finding (lines 1017-1023 and the like). Its description is formatted text; the
  model keeps the template and the numbers formatted into it.
\<close>

datatype risk_description =
    MarginCriticallyLow real real
  | MarginBelowTarget real real
  | MarginRoomForImprovement real real
  | SevereOvercommitment real
  | HighCommitment real
  | ExtremeCostVariance real
  | HighCostVariance real
  | LowPocVelocity real
  | NegativeCashFlowQuarters nat nat
  | RevenueDecline real
  | InsufficientContingency real
  | LowContingency real real
  | NoContingencyIdentified
  | WorkPackagesExceeding nat nat
  | LowBufferThinMargins real real

record risk_factor =
  rf_type :: string
  rf_severity :: string
  rf_description :: risk_description
  rf_impact :: string
  rf_recommendation :: string

text \<open>The dict returned by \<^verbatim>\<open>calculate_earned_value_metrics\<close> (lines 401-413).\<close>

record earned_value_metrics =
  planned_value :: real
  earned_value :: real
  actual_cost :: real
  cost_performance_index :: real
  schedule_performance_index :: real
  ev_cost_variance :: real
  schedule_variance :: real
  estimate_at_completion :: real
  variance_at_completion :: real
  cost_efficiency :: real
  schedule_efficiency :: real

text \<open>
  The parsed project (lines 568-579), with the keys that the derivation and scoring
  functions read. A revenue label that the sheet does not have is absent from
  \<open>pd_revenues\<close>.
\<close>

record project_data =
  pd_revenues :: "string \<rightharpoonup> period_values"
  pd_cost_analysis :: cost_analysis
  pd_work_packages :: work_packages
  pd_cash_flow_quarterly :: "(string \<times> cash_quarter) list"
  pd_earned_value :: earned_value_metrics
  pd_risk_factors :: "risk_factor list"

text \<open>
  \<^verbatim>\<open>safe_get_value(data, 'revenues', label, period)\<close> (lines 319-327): the default 0
  when the label is missing.
\<close>

definition safe_get_value :: "project_data \<Rightarrow> string \<Rightarrow> (period_values \<Rightarrow> real) \<Rightarrow> real" where
  "safe_get_value d label period =
     (case pd_revenues d label of None \<Rightarrow> 0 | Some pv \<Rightarrow> period pv)"

definition calculate_poc_velocity :: "real \<Rightarrow> real \<Rightarrow> real" where
  "calculate_poc_velocity poc_current poc_previous = poc_current - poc_previous"

section \<open>Risk assessment engine\<close>

text \<open>
  The three cutoffs that \<^verbatim>\<open>assess_project_risks\<close> reads from
  \<^verbatim>\<open>EXECUTIVE_THRESHOLDS['cm2_margin']\<close> (lines 1011-1013). The table of the source
  always holds them (lines 30 and 5317-5320), and the function is given the table entry
  as an argument.
\<close>

record cm2_margin_band =
  cm2_excellent :: real
  cm2_good :: real
  cm2_warning :: real

definition default_cm2_band :: cm2_margin_band where
  "default_cm2_band = \<lparr> cm2_excellent = 15, cm2_good = 10, cm2_warning = 5 \<rparr>"

text \<open>
  \<^verbatim>\<open>assess_project_risks\<close> (lines 999-1199) appends to \<^verbatim>\<open>risk_factors\<close> rule after
  rule; each rule below returns what it appends. On a record of the type above no
  subscript or conversion of the function can fail, so the handler of lines 1190-1197 is
  not entered.
\<close>

definition margin_rule :: "cm2_margin_band \<Rightarrow> real \<Rightarrow> risk_factor list" where
  "margin_rule band cm2_pct =
     (if cm2_pct < cm2_warning band then
        [\<lparr> rf_type = ''Margin Risk'', rf_severity = ''Critical'',
           rf_description = MarginCriticallyLow cm2_pct (cm2_warning band),
           rf_impact = ''High'',
           rf_recommendation = ''Immediate cost reduction and revenue optimization required'' \<rparr>]
      else if cm2_pct < cm2_good band then
        [\<lparr> rf_type = ''Margin Risk'', rf_severity = ''High'',
           rf_description = MarginBelowTarget cm2_pct (cm2_good band),
           rf_impact = ''Medium'',
           rf_recommendation = ''Review cost structure and identify optimization opportunities'' \<rparr>]
      else if cm2_pct < cm2_excellent band then
        [\<lparr> rf_type = ''Margin Risk'', rf_severity = ''Medium'',
           rf_description = MarginRoomForImprovement cm2_pct (cm2_excellent band),
           rf_impact = ''Low'',
           rf_recommendation = ''Continue monitoring and seek margin enhancement opportunities'' \<rparr>]
      else [])"

definition commitment_rule :: "real \<Rightarrow> risk_factor list" where
  "commitment_rule ratio =
     (if ratio > 1.2 then
        [\<lparr> rf_type = ''Cost Commitment'', rf_severity = ''Critical'',
           rf_description = SevereOvercommitment ratio,
           rf_impact = ''High'',
           rf_recommendation = ''Emergency cost review and procurement controls'' \<rparr>]
      else if ratio > 1.1 then
        [\<lparr> rf_type = ''Cost Commitment'', rf_severity = ''High'',
           rf_description = HighCommitment ratio,
           rf_impact = ''Medium'',
           rf_recommendation = ''Enhanced cost monitoring and approval processes'' \<rparr>]
      else [])"

definition cost_variance_rule :: "real \<Rightarrow> risk_factor list" where
  "cost_variance_rule cv =
     (if cv > 25 then
        [\<lparr> rf_type = ''Cost Variance'', rf_severity = ''Critical'',
           rf_description = ExtremeCostVariance cv,
           rf_impact = ''High'',
           rf_recommendation = ''Comprehensive cost baseline review required'' \<rparr>]
      else if cv > 15 then
        [\<lparr> rf_type = ''Cost Variance'', rf_severity = ''High'',
           rf_description = HighCostVariance cv,
           rf_impact = ''Medium'',
           rf_recommendation = ''Detailed variance analysis and corrective action plan'' \<rparr>]
      else [])"

definition schedule_rule :: "project_data \<Rightarrow> risk_factor list" where
  "schedule_rule d =
     (let poc_current = safe_get_value d ''POC%'' n_ptd;
          poc_previous = safe_get_value d ''POC%'' n1_ptd;
          poc_velocity = calculate_poc_velocity poc_current poc_previous
      in if poc_velocity < 2 \<and> poc_current < 90 then
           [\<lparr> rf_type = ''Schedule Risk'', rf_severity = ''High'',
              rf_description = LowPocVelocity poc_velocity,
              rf_impact = ''Medium'',
              rf_recommendation = ''Resource reallocation and schedule acceleration'' \<rparr>]
         else [])"

definition cash_flow_rule :: "project_data \<Rightarrow> risk_factor list" where
  "cash_flow_rule d =
     (let quarterly_data = pd_cash_flow_quarterly d in
      if quarterly_data \<noteq> [] then
        let negative_quarters = length (filter (\<lambda>q. cq_fct_n q < 0) (map snd quarterly_data));
            total_quarters = length quarterly_data
        in if real negative_quarters > real total_quarters * 0.3 then
             [\<lparr> rf_type = ''Cash Flow'', rf_severity = ''High'',
                rf_description = NegativeCashFlowQuarters negative_quarters total_quarters,
                rf_impact = ''High'',
                rf_recommendation = ''Cash flow optimization and milestone acceleration'' \<rparr>]
           else []
      else [])"

definition revenue_rule :: "project_data \<Rightarrow> risk_factor list" where
  "revenue_rule d =
     (let revenue_current = safe_get_value d ''Revenues'' n_ptd;
          revenue_previous = safe_get_value d ''Revenues'' n1_ptd;
          revenue_variance = calculate_period_variance revenue_current revenue_previous
      in if revenue_variance < - 15 then
           [\<lparr> rf_type = ''Revenue Risk'', rf_severity = ''Critical'',
              rf_description = RevenueDecline revenue_variance,
              rf_impact = ''High'',
              rf_recommendation = ''Revenue recovery plan and stakeholder engagement'' \<rparr>]
         else [])"

text \<open>The locals of lines 1130-1135, for a non-empty list of contingency packages.\<close>

definition contingency_percentage :: "project_data \<Rightarrow> real" where
  "contingency_percentage d =
     (let total_risk_contingency =
            sum_list (map wp_fct_n (risk_contingencies_of (pd_work_packages d)));
          contract_value = safe_get_value d ''Contract Price'' n_ptd
      in if contract_value > 0 then total_risk_contingency / contract_value * 100 else 0)"

definition contingency_consumption :: "project_data \<Rightarrow> real" where
  "contingency_consumption d =
     (let total_risk_contingency =
            sum_list (map wp_fct_n (risk_contingencies_of (pd_work_packages d)));
          original_contingency =
            sum_list (map wp_as_sold (risk_contingencies_of (pd_work_packages d)))
      in if original_contingency > 0
         then (original_contingency - total_risk_contingency) / original_contingency * 100
         else 0)"

definition no_contingency_finding :: risk_factor where
  "no_contingency_finding =
     \<lparr> rf_type = ''Contingency Risk'', rf_severity = ''High'',
       rf_description = NoContingencyIdentified,
       rf_impact = ''High'',
       rf_recommendation = ''Establish risk contingency budget for unforeseen events'' \<rparr>"

definition contingency_rule :: "project_data \<Rightarrow> risk_factor list" where
  "contingency_rule d =
     (if risk_contingencies_of (pd_work_packages d) \<noteq> [] then
        (if contingency_percentage d < 1 then
           [\<lparr> rf_type = ''Contingency Risk'', rf_severity = ''Medium'',
              rf_description = InsufficientContingency (contingency_percentage d),
              rf_impact = ''Medium'',
              rf_recommendation =
                ''Review risk register and consider contingency replenishment'' \<rparr>]
         else if contingency_percentage d < 5 \<and> contingency_consumption d > 80 then
           [\<lparr> rf_type = ''Contingency Risk'', rf_severity = ''High'',
              rf_description =
                LowContingency (contingency_percentage d) (contingency_consumption d),
              rf_impact = ''High'',
              rf_recommendation =
                ''Monitor emerging risks closely, prepare contingency plan'' \<rparr>]
         else [])
      else [no_contingency_finding])"

text \<open>Lines 1166-1169: the packages over 15% that are not contingency lines.\<close>

definition high_variance_wps :: "work_packages \<Rightarrow> work_package list" where
  "high_variance_wps wps =
     filter (\<lambda>wp. wp_variance_pct wp > 15 \<and> \<not> risk_contingency_desc (wp_description wp))
       (wp_values wps)"

definition wp_performance_finding :: "work_packages \<Rightarrow> risk_factor" where
  "wp_performance_finding wps =
     \<lparr> rf_type = ''WP Performance Risk'', rf_severity = ''High'',
       rf_description = WorkPackagesExceeding (length (high_variance_wps wps)) (length wps),
       rf_impact = ''High'',
       rf_recommendation = ''Systemic issue - review estimation or execution processes'' \<rparr>"

definition wp_performance_rule :: "work_packages \<Rightarrow> risk_factor list" where
  "wp_performance_rule wps =
     (if length wps > 0 \<and> real (length (high_variance_wps wps)) / real (length wps) > 0.3
      then [wp_performance_finding wps]
      else [])"

definition buffer_rule :: "project_data \<Rightarrow> real \<Rightarrow> risk_factor list" where
  "buffer_rule d cm2_pct =
     (if risk_contingencies_of (pd_work_packages d) \<noteq> [] \<and> contingency_percentage d < 3
         \<and> cm2_pct < 10 then
        [\<lparr> rf_type = ''Financial Buffer Risk'', rf_severity = ''Critical'',
           rf_description = LowBufferThinMargins (contingency_percentage d) cm2_pct,
           rf_impact = ''High'',
           rf_recommendation = ''Project has minimal financial buffer for risks'' \<rparr>]
      else [])"

definition assess_project_risks :: "cm2_margin_band \<Rightarrow> project_data \<Rightarrow> risk_factor list" where
  "assess_project_risks band d =
     (let cost = pd_cost_analysis d;
          cm2_pct = cm2_pct_fct_n cost
      in margin_rule band cm2_pct
         @ commitment_rule (committed_ratio cost)
         @ cost_variance_rule (cost_variance_pct cost)
         @ schedule_rule d
         @ cash_flow_rule d
         @ revenue_rule d
         @ contingency_rule d
         @ wp_performance_rule (pd_work_packages d)
         @ buffer_rule d cm2_pct)"

definition findings_of_type :: "string \<Rightarrow> risk_factor list \<Rightarrow> risk_factor list" where
  "findings_of_type t rfs = filter (\<lambda>rf. rf_type rf = t) rfs"

text \<open>
  The condition of the work-package concentration rule as the specification words it:
  the fraction is taken over the work packages that are not contingency lines.
\<close>

definition spec_wp_concentration :: "work_packages \<Rightarrow> bool" where
  "spec_wp_concentration wps =
     (let non_contingency =
            filter (\<lambda>wp. \<not> risk_contingency_desc (wp_description wp)) (wp_values wps);
          exceeding = filter (\<lambda>wp. wp_variance_pct wp > 15) non_contingency
      in length non_contingency > 0
         \<and> real (length exceeding) / real (length non_contingency) > 0.3)"

definition example_earned_value :: earned_value_metrics where
  "example_earned_value =
     \<lparr> planned_value = 0, earned_value = 0, actual_cost = 0,
       cost_performance_index = 1, schedule_performance_index = 1,
       ev_cost_variance = 0, schedule_variance = 0,
       estimate_at_completion = 0, variance_at_completion = 0,
       cost_efficiency = 0, schedule_efficiency = 0 \<rparr>"

definition example_project :: "real \<Rightarrow> real \<Rightarrow> work_packages \<Rightarrow> project_data" where
  "example_project contract poc wps =
     \<lparr> pd_revenues =
         [''Contract Price'' \<mapsto> \<lparr> n_ptd = contract, n1_ptd = contract, n_mtd = 0 \<rparr>,
          ''Revenues'' \<mapsto> \<lparr> n_ptd = 400, n1_ptd = 380, n_mtd = 0 \<rparr>,
          ''POC%'' \<mapsto> \<lparr> n_ptd = poc, n1_ptd = poc - 5, n_mtd = 0 \<rparr>],
       pd_cost_analysis = cost_analysis_init\<lparr> cm2_pct_fct_n := 20 \<rparr>,
       pd_work_packages = wps,
       pd_cash_flow_quarterly = [],
       pd_earned_value = example_earned_value,
       pd_risk_factors = [] \<rparr>"

section \<open>Margin variability engine\<close>

text \<open>
  The labels of this engine are an emoji and a text; the model pairs a value of
  \<open>label_icon\<close> with the text.
\<close>

datatype label_icon =
    BarChart | ChartUp | ChartDown | Wave
  | LowGreen | MediumYellow | HighOrange | HighRed
  | Target | CheckMark | WarningSign | CrossMark

text \<open>\<^verbatim>\<open>np.std\<close> of a non-empty list: the population standard deviation.\<close>

definition np_std :: "real list \<Rightarrow> real" where
  "np_std xs =
     (let mean = sum_list xs / real (length xs)
      in sqrt (sum_list (map (\<lambda>x. (x - mean)\<^sup>2) xs) / real (length xs)))"

definition calculate_volatility_index :: "real list \<Rightarrow> real" where
  "calculate_volatility_index margin_values =
     (if length margin_values < 2 then 0
      else let valid_values = filter (\<lambda>v. v \<noteq> 0) margin_values
           in if length valid_values < 2 then 0 else np_std valid_values)"

definition assess_margin_trend :: "real \<Rightarrow> real \<Rightarrow> real \<Rightarrow> label_icon \<times> string" where
  "assess_margin_trend cm2_as_sold cm2_fct_n1 cm2_fct_n =
     (if cm2_as_sold = 0 then (BarChart, ''Unknown'')
      else
        let total_change = cm2_fct_n - cm2_as_sold;
            recent_change = (if cm2_fct_n1 \<noteq> 0 then cm2_fct_n - cm2_fct_n1 else 0)
        in if total_change > 2 then (ChartUp, ''Improving'')
           else if total_change < - 5 then (ChartDown, ''Severely Declining'')
           else if total_change < - 2 then (ChartDown, ''Declining'')
           else if \<bar>recent_change\<bar> \<le> 1 then (BarChart, ''Stable'')
           else (Wave, ''Volatile''))"

definition assess_margin_risk :: "cm2_margin_band \<Rightarrow> real \<Rightarrow> real \<Rightarrow> label_icon \<times> string" where
  "assess_margin_risk band current_cm2 cm2_total_erosion =
     (if cm2_total_erosion > 2 then
        (if current_cm2 \<ge> cm2_excellent band then (LowGreen, ''Low'')
         else if current_cm2 \<ge> cm2_good band then (LowGreen, ''Low'')
         else if current_cm2 \<ge> cm2_warning band then (MediumYellow, ''Medium'')
         else (HighRed, ''High''))
      else if cm2_total_erosion \<ge> - 2 then
        (if current_cm2 \<ge> cm2_excellent band then (LowGreen, ''Low'')
         else if current_cm2 \<ge> cm2_good band then (MediumYellow, ''Medium'')
         else if current_cm2 \<ge> cm2_warning band then (HighOrange, ''High'')
         else (HighRed, ''Critical''))
      else
        (if current_cm2 \<ge> cm2_excellent band \<and> cm2_total_erosion > - 5
           then (MediumYellow, ''Medium'')
         else if current_cm2 \<ge> cm2_good band \<and> cm2_total_erosion > - 5
           then (HighOrange, ''High'')
         else if current_cm2 \<ge> cm2_warning band \<and> cm2_total_erosion > - 10
           then (HighOrange, ''High'')
         else (HighRed, ''Critical'')))"

definition assess_forecast_reliability ::
  "real \<Rightarrow> real \<Rightarrow> real \<Rightarrow> real \<Rightarrow> label_icon \<times> string" where
  "assess_forecast_reliability cm2_n1 cm2_n cm1_n1 cm1_n =
     (let cm2_change = (if cm2_n1 \<noteq> 0 then \<bar>cm2_n - cm2_n1\<bar> else 0);
          cm1_change = (if cm1_n1 \<noteq> 0 then \<bar>cm1_n - cm1_n1\<bar> else 0);
          avg_change = (cm2_change + cm1_change) / 2
      in if avg_change \<le> 1 then (Target, ''Highly Reliable'')
         else if avg_change \<le> 3 then (CheckMark, ''Reliable'')
         else if avg_change \<le> 5 then (WarningSign, ''Moderately Reliable'')
         else (CrossMark, ''Unreliable''))"

text \<open>
  The two dicts that \<^verbatim>\<open>calculate_margin_variability_metrics\<close> returns: the short one
  of lines 1580-1585 (current CM2, current CM1, message) and the full one of lines
  1612-1648.
\<close>

record margin_variability =
  cm2_total_erosion :: real
  cm2_recent_change :: real
  cm2_forecast_accuracy :: real
  cm2_volatility_index :: real
  cm1_total_erosion :: real
  cm1_recent_change :: real
  cm1_forecast_accuracy :: real
  cm1_volatility_index :: real
  margin_trend :: "label_icon \<times> string"
  margin_risk_level :: "label_icon \<times> string"
  forecast_reliability :: "label_icon \<times> string"
  cm2_erosion_value :: real
  cm1_erosion_value :: real
  mv_cm2_current :: real
  mv_cm1_current :: real
  mv_cm2_as_sold :: real
  mv_cm2_fct_n1 :: real
  mv_cm1_as_sold :: real
  mv_cm1_fct_n1 :: real
  mv_selling_price_as_sold :: real
  mv_selling_price_fct_n :: real

datatype margin_result =
    NoHistoricalData real real string
  | Variability margin_variability

text \<open>The key \<^verbatim>\<open>has_historical_data\<close> of either dict.\<close>

fun has_historical_data :: "margin_result \<Rightarrow> bool" where
  "has_historical_data (NoHistoricalData cm2_current cm1_current message) = False"
| "has_historical_data (Variability m) = True"

text \<open>The local \<^verbatim>\<open>has_historical_data\<close> of lines 1572-1576.\<close>

definition historical_data_check :: "cost_analysis \<Rightarrow> bool" where
  "historical_data_check cost =
     (let cm2_as_sold = cm2_pct_as_sold cost;
          cm2_fct_n1 = cm2_pct_fct_n1 cost;
          cm2_fct_n = cm2_pct_fct_n cost;
          cm1_as_sold = cm1_pct_as_sold cost;
          cm1_fct_n1 = cm1_pct_fct_n1 cost;
          cm1_fct_n = cm1_pct_fct_n cost
      in if (cm2_as_sold \<noteq> 0 \<and> cm2_as_sold \<noteq> cm2_fct_n)
            \<or> (cm2_fct_n1 \<noteq> 0 \<and> cm2_fct_n1 \<noteq> cm2_fct_n) then True
         else if (cm1_as_sold \<noteq> 0 \<and> cm1_as_sold \<noteq> cm1_fct_n)
            \<or> (cm1_fct_n1 \<noteq> 0 \<and> cm1_fct_n1 \<noteq> cm1_fct_n) then True
         else False)"

text \<open>
  \<^verbatim>\<open>calculate_margin_variability_metrics\<close> (lines 1550-1648). The debug print of lines
  1597-1610 has no effect on the result and is left out.
\<close>

definition calculate_margin_variability_metrics ::
  "cm2_margin_band \<Rightarrow> project_data \<Rightarrow> margin_result" where
  "calculate_margin_variability_metrics band d =
     (let cost = pd_cost_analysis d;
          cm2_as_sold = cm2_pct_as_sold cost;
          cm2_fct_n1 = cm2_pct_fct_n1 cost;
          cm2_fct_n = cm2_pct_fct_n cost;
          cm1_as_sold = cm1_pct_as_sold cost;
          cm1_fct_n1 = cm1_pct_fct_n1 cost;
          cm1_fct_n = cm1_pct_fct_n cost;
          sp_as_sold = selling_price_as_sold cost;
          sp_fct_n = selling_price_fct_n cost;
          has_history = historical_data_check cost
      in if \<not> has_history then
           NoHistoricalData cm2_fct_n cm1_fct_n
             ''No historical margin data found for variability analysis''
         else
           let cm2_erosion = cm2_fct_n - cm2_as_sold;
               cm1_erosion = cm1_fct_n - cm1_as_sold
           in Variability
             \<lparr> cm2_total_erosion = cm2_erosion,
               cm2_recent_change = cm2_fct_n - cm2_fct_n1,
               cm2_forecast_accuracy = (if cm2_fct_n1 \<noteq> 0 then \<bar>cm2_fct_n1 - cm2_fct_n\<bar> else 0),
               cm2_volatility_index = calculate_volatility_index [cm2_as_sold, cm2_fct_n1, cm2_fct_n],
               cm1_total_erosion = cm1_erosion,
               cm1_recent_change = cm1_fct_n - cm1_fct_n1,
               cm1_forecast_accuracy = (if cm1_fct_n1 \<noteq> 0 then \<bar>cm1_fct_n1 - cm1_fct_n\<bar> else 0),
               cm1_volatility_index = calculate_volatility_index [cm1_as_sold, cm1_fct_n1, cm1_fct_n],
               margin_trend = assess_margin_trend cm2_as_sold cm2_fct_n1 cm2_fct_n,
               margin_risk_level = assess_margin_risk band cm2_fct_n cm2_erosion,
               forecast_reliability =
                 assess_forecast_reliability cm2_fct_n1 cm2_fct_n cm1_fct_n1 cm1_fct_n,
               cm2_erosion_value = (cm2_erosion / 100) * sp_fct_n,
               cm1_erosion_value = (cm1_erosion / 100) * sp_fct_n,
               mv_cm2_current = cm2_fct_n,
               mv_cm1_current = cm1_fct_n,
               mv_cm2_as_sold = cm2_as_sold,
               mv_cm2_fct_n1 = cm2_fct_n1,
               mv_cm1_as_sold = cm1_as_sold,
               mv_cm1_fct_n1 = cm1_fct_n1,
               mv_selling_price_as_sold = sp_as_sold,
               mv_selling_price_fct_n = sp_fct_n \<rparr>)"

text \<open>
  The condition as the specification words it: some two of the three period values
  differ, for the CM1 or for the CM2 percentages.
\<close>

definition spec_two_differ :: "real \<Rightarrow> real \<Rightarrow> real \<Rightarrow> bool" where
  "spec_two_differ a b c = (a \<noteq> b \<or> a \<noteq> c \<or> b \<noteq> c)"

definition spec_has_historical_data :: "cost_analysis \<Rightarrow> bool" where
  "spec_has_historical_data cost =
     (spec_two_differ (cm1_pct_as_sold cost) (cm1_pct_fct_n1 cost) (cm1_pct_fct_n cost)
      \<or> spec_two_differ (cm2_pct_as_sold cost) (cm2_pct_fct_n1 cost) (cm2_pct_fct_n cost))"

text \<open>A parsed project: the cost sheet next to the revenue rows of \<open>example_project\<close>.\<close>

definition example_parsed_project :: "cost_row list \<Rightarrow> real \<Rightarrow> project_data" where
  "example_parsed_project rows contract =
     (example_project contract 50 (snd (parse_cost_breakdown rows contract)))
       \<lparr> pd_cost_analysis := fst (parse_cost_breakdown rows contract) \<rparr>"

section \<open>Portfolio aggregator\<close>

text \<open>
  An entry of the portfolio dict (lines 5216-5222) with the keys the aggregator reads;
  \<open>pe_data = None\<close> stands for a \<^verbatim>\<open>data\<close> value that is \<^verbatim>\<open>None\<close> or empty, which
  line 3713 skips.
\<close>

record portfolio_entry =
  pe_name :: string
  pe_data :: "project_data option"

text \<open>The accumulator \<^verbatim>\<open>metrics\<close> of lines 3694-3709.\<close>

record portfolio_metrics =
  m_total_contract_value_n :: real
  m_total_contract_value_n1 :: real
  m_total_revenue_n :: real
  m_total_revenue_n1 :: real
  m_total_cash_in_n :: real
  m_total_cash_in_n1 :: real
  m_total_cash_out_n :: real
  m_total_cash_out_n1 :: real
  m_total_cm1_value :: real
  m_total_cm2_value :: real
  m_total_ec :: real
  m_total_ic :: real
  m_total_committed :: real
  m_total_as_sold :: real
  m_valid_projects :: nat
  m_weighted_poc_n :: real
  m_weighted_poc_n1 :: real
  m_total_cpi :: real
  m_total_spi :: real
  m_total_risk_score :: real
  m_total_contingency_as_sold :: real
  m_total_contingency_fct_n :: real
  m_weighted_poc_for_contingency :: real
  m_projects_with_contingency :: nat

definition metrics_init :: portfolio_metrics where
  "metrics_init =
     \<lparr> m_total_contract_value_n = 0, m_total_contract_value_n1 = 0,
       m_total_revenue_n = 0, m_total_revenue_n1 = 0,
       m_total_cash_in_n = 0, m_total_cash_in_n1 = 0,
       m_total_cash_out_n = 0, m_total_cash_out_n1 = 0,
       m_total_cm1_value = 0, m_total_cm2_value = 0,
       m_total_ec = 0, m_total_ic = 0,
       m_total_committed = 0, m_total_as_sold = 0,
       m_valid_projects = 0, m_weighted_poc_n = 0, m_weighted_poc_n1 = 0,
       m_total_cpi = 0, m_total_spi = 0, m_total_risk_score = 0,
       m_total_contingency_as_sold = 0, m_total_contingency_fct_n = 0,
       m_weighted_poc_for_contingency = 0, m_projects_with_contingency = 0 \<rparr>"

text \<open>The risk score of lines 3759-3760.\<close>

definition risk_score :: "risk_factor list \<Rightarrow> real" where
  "risk_score rfs =
     real (length (filter (\<lambda>r. rf_severity r \<in> set [''Critical'', ''High'']) rfs) * 2
           + length (filter (\<lambda>r. rf_severity r = ''Medium'') rfs))"

text \<open>The contingency part of the loop body (lines 3764-3769).\<close>

definition add_contingency :: "project_data \<Rightarrow> real \<Rightarrow> real \<Rightarrow> portfolio_metrics \<Rightarrow> portfolio_metrics" where
  "add_contingency d poc_n contract_n m =
     (let cm = calculate_contingency_metrics (pd_work_packages d) poc_n in
      if has_contingency cm then
        m\<lparr> m_total_contingency_as_sold := m_total_contingency_as_sold m + contingency_as_sold cm,
           m_total_contingency_fct_n := m_total_contingency_fct_n m + contingency_fct_n cm,
           m_weighted_poc_for_contingency := m_weighted_poc_for_contingency m + poc_n * contract_n,
           m_projects_with_contingency := m_projects_with_contingency m + 1 \<rparr>
      else m)"

text \<open>The body of the loop over the projects (lines 3711-3771).\<close>

definition accumulate_project :: "portfolio_entry \<Rightarrow> portfolio_metrics \<Rightarrow> portfolio_metrics" where
  "accumulate_project project m =
     (case pe_data project of
        None \<Rightarrow> m
      | Some d \<Rightarrow>
          let contract_n = safe_get_value d ''Contract Price'' n_ptd;
              contract_n1 = safe_get_value d ''Contract Price'' n1_ptd;
              revenue_n = safe_get_value d ''Revenues'' n_ptd;
              revenue_n1 = safe_get_value d ''Revenues'' n1_ptd;
              cash_in_n = safe_get_value d ''Cash IN'' n_ptd;
              cash_in_n1 = safe_get_value d ''Cash IN'' n1_ptd;
              cash_out_n = safe_get_value d ''Cash OUT'' n_ptd;
              cash_out_n1 = safe_get_value d ''Cash OUT'' n1_ptd;
              poc_n = safe_get_value d ''POC%'' n_ptd;
              poc_n1 = safe_get_value d ''POC%'' n1_ptd;
              cost = pd_cost_analysis d;
              ev = pd_earned_value d
          in
          if contract_n > 0 then
            (add_contingency d poc_n contract_n
              (m\<lparr> m_total_contract_value_n := m_total_contract_value_n m + contract_n,
                  m_total_contract_value_n1 := m_total_contract_value_n1 m + contract_n1,
                  m_total_revenue_n := m_total_revenue_n m + revenue_n,
                  m_total_revenue_n1 := m_total_revenue_n1 m + revenue_n1,
                  m_total_cash_in_n := m_total_cash_in_n m + cash_in_n,
                  m_total_cash_in_n1 := m_total_cash_in_n1 m + cash_in_n1,
                  m_total_cash_out_n := m_total_cash_out_n m + cash_out_n,
                  m_total_cash_out_n1 := m_total_cash_out_n1 m + cash_out_n1,
                  m_weighted_poc_n := m_weighted_poc_n m + poc_n * contract_n,
                  m_weighted_poc_n1 := m_weighted_poc_n1 m + poc_n1 * contract_n1,
                  m_total_cm1_value := m_total_cm1_value m + cm1_value_fct_n cost,
                  m_total_cm2_value := m_total_cm2_value m + cm2_value_fct_n cost,
                  m_total_ec := m_total_ec m + ec_total_fct_n cost,
                  m_total_ic := m_total_ic m + ic_total_fct_n cost,
                  m_total_committed := m_total_committed m + total_committed cost,
                  m_total_as_sold := m_total_as_sold m + total_as_sold cost,
                  m_total_cpi := m_total_cpi m + cost_performance_index ev,
                  m_total_spi := m_total_spi m + schedule_performance_index ev,
                  m_total_risk_score := m_total_risk_score m + risk_score (pd_risk_factors d) \<rparr>))
              \<lparr> m_valid_projects := m_valid_projects m + 1 \<rparr>
          else m)"

definition portfolio_metrics_of :: "(string \<times> portfolio_entry) list \<Rightarrow> portfolio_metrics" where
  "portfolio_metrics_of portfolio_data =
     fold (\<lambda>item. accumulate_project (snd item)) portfolio_data metrics_init"

text \<open>The dict \<^verbatim>\<open>portfolio_summary\<close> of lines 3788-3843.\<close>

record portfolio_summary =
  ps_total_contract_value :: real
  ps_total_revenue :: real
  ps_total_cm1 :: real
  ps_total_cm2 :: real
  ps_net_cash_flow :: real
  ps_project_count :: nat
  ps_total_contract_value_n1 :: real
  ps_total_revenue_n1 :: real
  ps_net_cash_flow_n1 :: real
  ps_contract_variance :: real
  ps_revenue_variance :: real
  ps_net_cash_variance :: real
  ps_avg_cm1_pct :: real
  ps_avg_cm2_pct :: real
  ps_portfolio_ec_pct :: real
  ps_portfolio_ic_pct :: real
  ps_portfolio_committed_ratio :: real
  ps_avg_cost_performance_index :: real
  ps_avg_schedule_performance_index :: real
  ps_weighted_poc_n :: real
  ps_weighted_poc_n1 :: real
  ps_average_risk_score :: real
  ps_total_portfolio_value_at_risk :: real
  ps_cash_flow_efficiency :: real
  ps_portfolio_contingency_efficiency :: "real option"
  ps_total_contingency_as_sold :: real
  ps_total_contingency_fct_n :: real
  ps_projects_with_contingency :: nat
  ps_weighted_poc_velocity :: real

text \<open>Lines 3776-3785.\<close>

definition portfolio_contingency_efficiency_of :: "portfolio_metrics \<Rightarrow> real option" where
  "portfolio_contingency_efficiency_of m =
     (if m_projects_with_contingency m > 0 \<and> m_total_contingency_as_sold m > 0 then
        let consumed = m_total_contingency_as_sold m - m_total_contingency_fct_n m;
            consumed_pct = consumed / m_total_contingency_as_sold m * 100;
            avg_poc = (if m_total_contract_value_n m > 0
                       then m_weighted_poc_for_contingency m / m_total_contract_value_n m
                       else 0)
        in if avg_poc > 0 then Some (max 0 (min 200 ((2 - consumed_pct / avg_poc) * 100)))
           else None
      else None)"

text \<open>Lines 3773-3845: from the accumulated metrics to the summary.\<close>

definition summarise :: "portfolio_metrics \<Rightarrow> portfolio_summary option" where
  "summarise m =
     (if m_valid_projects m = 0 then None
      else
        let cv = m_total_contract_value_n m;
            w_n = (if cv > 0 then m_weighted_poc_n m / cv else 0);
            w_n1 = (if m_total_contract_value_n1 m > 0
                    then m_weighted_poc_n1 m / m_total_contract_value_n1 m else 0)
        in Some
          \<lparr> ps_total_contract_value = cv,
            ps_total_revenue = m_total_revenue_n m,
            ps_total_cm1 = m_total_cm1_value m,
            ps_total_cm2 = m_total_cm2_value m,
            ps_net_cash_flow = m_total_cash_in_n m - m_total_cash_out_n m,
            ps_project_count = m_valid_projects m,
            ps_total_contract_value_n1 = m_total_contract_value_n1 m,
            ps_total_revenue_n1 = m_total_revenue_n1 m,
            ps_net_cash_flow_n1 = m_total_cash_in_n1 m - m_total_cash_out_n1 m,
            ps_contract_variance =
              calculate_period_variance cv (m_total_contract_value_n1 m),
            ps_revenue_variance =
              calculate_period_variance (m_total_revenue_n m) (m_total_revenue_n1 m),
            ps_net_cash_variance =
              calculate_period_variance (m_total_cash_in_n m - m_total_cash_out_n m)
                (m_total_cash_in_n1 m - m_total_cash_out_n1 m),
            ps_avg_cm1_pct = (if cv > 0 then m_total_cm1_value m / cv * 100 else 0),
            ps_avg_cm2_pct = (if cv > 0 then m_total_cm2_value m / cv * 100 else 0),
            ps_portfolio_ec_pct = (if cv > 0 then m_total_ec m / cv * 100 else 0),
            ps_portfolio_ic_pct = (if cv > 0 then m_total_ic m / cv * 100 else 0),
            ps_portfolio_committed_ratio =
              (if m_total_as_sold m > 0 then m_total_committed m / m_total_as_sold m else 0),
            ps_avg_cost_performance_index = m_total_cpi m / real (m_valid_projects m),
            ps_avg_schedule_performance_index = m_total_spi m / real (m_valid_projects m),
            ps_weighted_poc_n = w_n,
            ps_weighted_poc_n1 = w_n1,
            ps_average_risk_score = m_total_risk_score m / real (m_valid_projects m),
            ps_total_portfolio_value_at_risk = 0,
            ps_cash_flow_efficiency =
              (if m_total_cash_out_n m > 0 then m_total_cash_in_n m / m_total_cash_out_n m
               else 1),
            ps_portfolio_contingency_efficiency = portfolio_contingency_efficiency_of m,
            ps_total_contingency_as_sold = m_total_contingency_as_sold m,
            ps_total_contingency_fct_n = m_total_contingency_fct_n m,
            ps_projects_with_contingency = m_projects_with_contingency m,
            ps_weighted_poc_velocity = calculate_poc_velocity w_n w_n1 \<rparr>)"

text \<open>\<^verbatim>\<open>create_enhanced_portfolio_summary\<close> (lines 3689-3845).\<close>

definition create_enhanced_portfolio_summary ::
  "(string \<times> portfolio_entry) list \<Rightarrow> portfolio_summary option" where
  "create_enhanced_portfolio_summary portfolio_data =
     (if portfolio_data = [] then None
      else summarise (portfolio_metrics_of portfolio_data))"

definition example_entry :: "real \<Rightarrow> portfolio_entry" where
  "example_entry contract =
     \<lparr> pe_name = ''Plant'',
       pe_data = Some (example_project contract 50
                   [example_wp ''W1'' ''Civil Works'' 1000 1100 1200 20]) \<rparr>"

section \<open>Properties of the contingency efficiency engine\<close>

lemma efficiency_of_bounds: "0 \<le> efficiency_of c p" "efficiency_of c p \<le> 200"
  by (simp_all add: efficiency_of_def Let_def)

lemma efficiency_of_zero_poc: "efficiency_of c 0 = 200"
  by (simp add: efficiency_of_def)

lemma efficiency_of_pos_poc:
  "p > 0 \<Longrightarrow> efficiency_of c p = max 0 (min 200 ((2 - c / p) * 100))"
  by (simp add: efficiency_of_def)

lemma contingency_fields:
  assumes "risk_contingencies_of wps \<noteq> []"
  shows "efficiency (calculate_contingency_metrics wps poc) =
           Some (efficiency_of (consumed_percentage (calculate_contingency_metrics wps poc)) poc)"
    and "consumed_percentage (calculate_contingency_metrics wps poc) =
           consumed_percentage_of (sum_list (map wp_as_sold (risk_contingencies_of wps)))
             (sum_list (map wp_as_sold (risk_contingencies_of wps))
               - sum_list (map wp_fct_n (risk_contingencies_of wps)))"
    and "trend (calculate_contingency_metrics wps poc) =
           fst (contingency_trend
             (if sum_list (map wp_as_sold (risk_contingencies_of wps)) > 0
              then sum_list (map wp_as_sold (risk_contingencies_of wps))
                     - sum_list (map wp_fct_n1 (risk_contingencies_of wps)) else 0)
             (if sum_list (map wp_fct_n1 (risk_contingencies_of wps)) > 0
              then sum_list (map wp_fct_n1 (risk_contingencies_of wps))
                     - sum_list (map wp_fct_n (risk_contingencies_of wps)) else 0))"
    and "early_consumption (calculate_contingency_metrics wps poc) =
           Some (if sum_list (map wp_as_sold (risk_contingencies_of wps)) > 0
              then sum_list (map wp_as_sold (risk_contingencies_of wps))
                     - sum_list (map wp_fct_n1 (risk_contingencies_of wps)) else 0)"
    and "recent_consumption (calculate_contingency_metrics wps poc) =
           Some (if sum_list (map wp_fct_n1 (risk_contingencies_of wps)) > 0
              then sum_list (map wp_fct_n1 (risk_contingencies_of wps))
                     - sum_list (map wp_fct_n (risk_contingencies_of wps)) else 0)"
  using assms by (simp_all add: calculate_contingency_metrics_def Let_def)

text \<open>
  Claim C5. Whenever the work-package map holds at least one risk-contingency package,
  the summed as-sold contingency is not negative, the summed current forecast lies
  between 0 and the as-sold sum, and the POC lies between 0 and 100, the engine returns a
  numeric efficiency between 0 and 200. That efficiency is 200 when the POC is 0, and
  otherwise it is \<open>(2 - consumed_pct / POC) * 100\<close> clamped to the interval from 0 to
  200, where \<open>consumed_pct\<close> is the consumed percentage the engine reports,
  \<open>(as_sold - fct_n) / as_sold * 100\<close> (0 when the as-sold sum is 0).
\<close>

theorem contingency_efficiency_bounded:
  assumes "risk_contingencies_of wps \<noteq> []"
    and "0 \<le> sum_list (map wp_as_sold (risk_contingencies_of wps))"
    and "0 \<le> sum_list (map wp_fct_n (risk_contingencies_of wps))"
    and "sum_list (map wp_fct_n (risk_contingencies_of wps))
           \<le> sum_list (map wp_as_sold (risk_contingencies_of wps))"
    and "0 \<le> poc" and "poc \<le> 100"
  shows "\<exists>e. efficiency (calculate_contingency_metrics wps poc) = Some e
           \<and> 0 \<le> e \<and> e \<le> 200
           \<and> (poc = 0 \<longrightarrow> e = 200)
           \<and> (poc \<noteq> 0 \<longrightarrow>
                e = max 0 (min 200
                      ((2 - consumed_percentage (calculate_contingency_metrics wps poc) / poc) * 100)))
           \<and> consumed_percentage (calculate_contingency_metrics wps poc) =
                (if sum_list (map wp_as_sold (risk_contingencies_of wps)) > 0
                 then (sum_list (map wp_as_sold (risk_contingencies_of wps))
                        - sum_list (map wp_fct_n (risk_contingencies_of wps)))
                      / sum_list (map wp_as_sold (risk_contingencies_of wps)) * 100
                 else 0)"
proof -
  let ?m = "calculate_contingency_metrics wps poc"
  let ?e = "efficiency_of (consumed_percentage ?m) poc"
  have e: "efficiency ?m = Some ?e"
    by (rule contingency_fields(1) [OF assms(1)])
  have c: "consumed_percentage ?m =
      (if sum_list (map wp_as_sold (risk_contingencies_of wps)) > 0
       then (sum_list (map wp_as_sold (risk_contingencies_of wps))
              - sum_list (map wp_fct_n (risk_contingencies_of wps)))
            / sum_list (map wp_as_sold (risk_contingencies_of wps)) * 100
       else 0)"
    unfolding contingency_fields(2) [OF assms(1)] consumed_percentage_of_def by (rule refl)
  have z: "poc = 0 \<longrightarrow> ?e = 200"
    by (simp add: efficiency_of_zero_poc)
  have p: "poc \<noteq> 0 \<longrightarrow> ?e = max 0 (min 200 ((2 - consumed_percentage ?m / poc) * 100))"
  proof
    assume "poc \<noteq> 0"
    with \<open>0 \<le> poc\<close> have "poc > 0" by simp
    then show "?e = max 0 (min 200 ((2 - consumed_percentage ?m / poc) * 100))"
      by (rule efficiency_of_pos_poc)
  qed
  from e efficiency_of_bounds [of "consumed_percentage ?m" poc] z p c
  show ?thesis by blast
qed

lemma desc_risk_contingency: "risk_contingency_desc ''Risk Contingency''"
  by (simp add: risk_contingency_desc_def lower_def lower_char_def)

lemma desc_civil_works: "\<not> risk_contingency_desc ''Civil Works''"
  by (simp add: risk_contingency_desc_def lower_def lower_char_def)

lemma example_wp_fields:
  "wp_description (snd (example_wp c d a n1 n v)) = d"
  "wp_as_sold (snd (example_wp c d a n1 n v)) = a"
  "wp_fct_n1 (snd (example_wp c d a n1 n v)) = n1"
  "wp_fct_n (snd (example_wp c d a n1 n v)) = n"
  "wp_variance_pct (snd (example_wp c d a n1 n v)) = v"
  by (simp_all add: example_wp_def)

lemma example_rc_one:
  "risk_contingencies_of [example_wp ''R1'' ''Risk Contingency'' a n1 n v]
     = [snd (example_wp ''R1'' ''Risk Contingency'' a n1 n v)]"
  by (simp add: risk_contingencies_of_def wp_values_def example_wp_fields desc_risk_contingency)

theorem contingency_efficiency_bounded_witness:
  "efficiency (calculate_contingency_metrics
      [example_wp ''R1'' ''Risk Contingency'' 1000 900 200 0] 20) = Some 0
   \<and> efficiency (calculate_contingency_metrics
      [example_wp ''R1'' ''Risk Contingency'' 1000 900 200 0] 0) = Some 200"
proof -
  let ?wps = "[example_wp ''R1'' ''Risk Contingency'' 1000 900 200 0]"
  have rc: "risk_contingencies_of ?wps = [snd (example_wp ''R1'' ''Risk Contingency'' 1000 900 200 0)]"
    by (rule example_rc_one)
  have cp: "consumed_percentage (calculate_contingency_metrics ?wps p) = 80" for p
    by (simp add: contingency_fields(2) rc example_wp_fields consumed_percentage_of_def)
  have a: "efficiency (calculate_contingency_metrics ?wps 20) = Some 0"
    using contingency_efficiency_bounded [of ?wps 20]
    by (simp add: rc cp example_wp_fields)
  have b: "efficiency (calculate_contingency_metrics ?wps 0) = Some 200"
    using contingency_efficiency_bounded [of ?wps 0]
    by (simp add: rc cp example_wp_fields)
  from a b show ?thesis by simp
qed

text \<open>
  Claim C6. Whenever the risk-contingency packages of a project sum to as_sold = 1000,
  fct_n1 = 900 and fct_n = 850 and the POC is 40, the engine reports
  consumed_percentage = 15, efficiency = 162.5 and the trend "Improving": the recent
  consumption 50 is below 0.8 times the early consumption 100, so the second branch of
  the trend cascade is taken, not "Stable".
\<close>

theorem contingency_scenario_1000_900_850:
  assumes "risk_contingencies_of wps \<noteq> []"
    and "sum_list (map wp_as_sold (risk_contingencies_of wps)) = 1000"
    and "sum_list (map wp_fct_n1 (risk_contingencies_of wps)) = 900"
    and "sum_list (map wp_fct_n (risk_contingencies_of wps)) = 850"
  shows "consumed_percentage (calculate_contingency_metrics wps 40) = 15
       \<and> efficiency (calculate_contingency_metrics wps 40) = Some 162.5
       \<and> trend (calculate_contingency_metrics wps 40) = ''Improving''
       \<and> early_consumption (calculate_contingency_metrics wps 40) = Some 100
       \<and> recent_consumption (calculate_contingency_metrics wps 40) = Some 50"
proof -
  let ?m = "calculate_contingency_metrics wps 40"
  have c: "consumed_percentage ?m = 15"
    by (simp add: contingency_fields(2) [OF assms(1)] assms(2,4) consumed_percentage_of_def)
  have e: "efficiency ?m = Some 162.5"
    by (simp add: contingency_fields(1) [OF assms(1)] c efficiency_of_def)
  have t: "trend ?m = ''Improving''"
    by (simp add: contingency_fields(3) [OF assms(1)] assms(2,3,4) contingency_trend_def)
  have ea: "early_consumption ?m = Some 100"
    by (simp add: contingency_fields(4) [OF assms(1)] assms(2,3))
  have re: "recent_consumption ?m = Some 50"
    by (simp add: contingency_fields(5) [OF assms(1)] assms(3,4))
  from c e t ea re show ?thesis by simp
qed

theorem contingency_scenario_1000_900_850_witness:
  "trend (calculate_contingency_metrics
      [example_wp ''W1'' ''Civil Works'' 5000 5200 5300 6,
       example_wp ''R1'' ''Risk Contingency'' 600 500 450 0,
       example_wp ''R2'' ''RISK & CONTINGENCIES'' 400 400 400 0] 40) = ''Improving''
   \<and> efficiency (calculate_contingency_metrics
      [example_wp ''W1'' ''Civil Works'' 5000 5200 5300 6,
       example_wp ''R1'' ''Risk Contingency'' 600 500 450 0,
       example_wp ''R2'' ''RISK & CONTINGENCIES'' 400 400 400 0] 40) = Some 162.5"
proof -
  let ?wps = "[example_wp ''W1'' ''Civil Works'' 5000 5200 5300 6,
       example_wp ''R1'' ''Risk Contingency'' 600 500 450 0,
       example_wp ''R2'' ''RISK & CONTINGENCIES'' 400 400 400 0]"
  have d: "risk_contingency_desc ''RISK & CONTINGENCIES''"
    by (simp add: risk_contingency_desc_def lower_def lower_char_def)
  have rc: "risk_contingencies_of ?wps =
      [snd (example_wp ''R1'' ''Risk Contingency'' 600 500 450 0),
       snd (example_wp ''R2'' ''RISK & CONTINGENCIES'' 400 400 400 0)]"
    by (simp add: risk_contingencies_of_def wp_values_def example_wp_fields
        desc_risk_contingency desc_civil_works d)
  show ?thesis
    using contingency_scenario_1000_900_850 [of ?wps]
    by (simp add: rc example_wp_fields)
qed

text \<open>
  Claim C10. For a work-package map without any risk-contingency package the engine
  returns the sentinel bundle: has_contingency is false, efficiency is None (there is no
  number, so no bound on it), the trend is "No Contingency", the status is "N/A", and
  every monetary and percentage field of the bundle is 0.
\<close>

theorem contingency_sentinel:
  assumes "risk_contingencies_of wps = []"
  shows "calculate_contingency_metrics wps poc =
     \<lparr> has_contingency = False,
       contingency_as_sold = 0, contingency_fct_n1 = 0, contingency_fct_n = 0,
       consumed_amount = 0, consumed_percentage = 0,
       remaining_amount = None, remaining_percentage = None,
       efficiency = None,
       trend = ''No Contingency'', trend_icon = None,
       status = ''N/A'', status_icon = Dash, status_color = ''info'',
       early_consumption = None, recent_consumption = None \<rparr>"
  using assms by (simp add: calculate_contingency_metrics_def Let_def)

theorem contingency_sentinel_witness:
  "efficiency (calculate_contingency_metrics
      [example_wp ''W1'' ''Civil Works'' 5000 5200 5300 6] 40) = None
   \<and> \<not> has_contingency (calculate_contingency_metrics
      [example_wp ''W1'' ''Civil Works'' 5000 5200 5300 6] 40)"
proof -
  have rc: "risk_contingencies_of [example_wp ''W1'' ''Civil Works'' 5000 5200 5300 6] = []"
    by (simp add: risk_contingencies_of_def wp_values_def example_wp_fields desc_civil_works)
  show ?thesis
    using contingency_sentinel [OF rc, of 40] by simp
qed

section \<open>Properties of the traffic-light classifier\<close>

lemma traffic_light_total:
  assumes "th ''excellent'' = Some e" "th ''good'' = Some g" "th ''warning'' = Some w"
  shows "\<exists>ic lb. get_traffic_light_status val th reverse =
           Inr (ic, lb, spec_classify reverse e g (th ''stable'') w val)"
  using assms
  by (cases val; cases reverse; cases "th ''stable''")
     (simp_all add: get_traffic_light_status_def)

lemma traffic_light_tier:
  assumes "th ''excellent'' = Some e" "th ''good'' = Some g" "th ''warning'' = Some w"
  shows "status_tier (get_traffic_light_status val th reverse) =
           Some (spec_classify reverse e g (th ''stable'') w val)"
  using traffic_light_total [OF assms, of val reverse] by (auto simp: status_tier_def)

lemma traffic_light_nan:
  assumes "th ''excellent'' = Some e" "th ''good'' = Some g" "th ''warning'' = Some w"
  shows "get_traffic_light_status NaN th reverse = Inr (RedCircle, ''Critical'', ''critical'')"
  using assms
  by (cases reverse; cases "th ''stable''") (simp_all add: get_traffic_light_status_def)

lemma tier_rank_simps:
  "tier_rank ''excellent'' = 4" "tier_rank ''good'' = 3" "tier_rank ''stable'' = 2"
  "tier_rank ''warning'' = 1" "tier_rank ''critical'' = 0"
  by (simp_all add: tier_rank_def)

lemma spec_classify_mono:
  assumes "v1 \<le> v2"
  shows "tier_rank (spec_classify False e g s w (Num v1))
           \<le> tier_rank (spec_classify False e g s w (Num v2))"
  using assms by (cases s) (simp_all add: tier_rank_simps)

lemma spec_classify_reverse_antimono:
  assumes "v1 \<le> v2"
  shows "tier_rank (spec_classify True e g s w (Num v2))
           \<le> tier_rank (spec_classify True e g s w (Num v1))"
  using assms by (simp add: tier_rank_simps)

text \<open>
  Claim C4, as the code has it. For a band that holds the excellent, good and warning
  cutoffs, the classifier returns a result for every value (a real number or NaN) in
  either mode, and its tier is the one of the specification's cascade: in non-reverse
  mode excellent, good, stable (when the band has a stable cutoff), warning, critical by
  \<open>\<ge>\<close>; in reverse mode excellent, good, warning, critical by \<open>\<le>\<close>. NaN is
  classified critical in both modes. In non-reverse mode a smaller value never gets a
  better tier than a larger one. In reverse mode the order is the opposite one: a larger
  value never gets a better tier than a smaller one. Neither order needs the cutoffs to
  be monotonic.
\<close>

theorem traffic_light_cascade:
  assumes "th ''excellent'' = Some e" and "th ''good'' = Some g" and "th ''warning'' = Some w"
  shows "(\<exists>ic lb. get_traffic_light_status val th reverse =
             Inr (ic, lb, spec_classify reverse e g (th ''stable'') w val))
       \<and> get_traffic_light_status NaN th reverse = Inr (RedCircle, ''Critical'', ''critical'')
       \<and> (v1 \<le> v2 \<longrightarrow>
            (\<exists>t1 t2. status_tier (get_traffic_light_status (Num v1) th False) = Some t1
                   \<and> status_tier (get_traffic_light_status (Num v2) th False) = Some t2
                   \<and> tier_rank t1 \<le> tier_rank t2))
       \<and> (v1 \<le> v2 \<longrightarrow>
            (\<exists>t1 t2. status_tier (get_traffic_light_status (Num v1) th True) = Some t1
                   \<and> status_tier (get_traffic_light_status (Num v2) th True) = Some t2
                   \<and> tier_rank t2 \<le> tier_rank t1))"
proof (intro conjI impI)
  show "\<exists>ic lb. get_traffic_light_status val th reverse =
             Inr (ic, lb, spec_classify reverse e g (th ''stable'') w val)"
    by (rule traffic_light_total [OF assms])
  show "get_traffic_light_status NaN th reverse = Inr (RedCircle, ''Critical'', ''critical'')"
    by (rule traffic_light_nan [OF assms])
next
  assume le: "v1 \<le> v2"
  show "\<exists>t1 t2. status_tier (get_traffic_light_status (Num v1) th False) = Some t1
                   \<and> status_tier (get_traffic_light_status (Num v2) th False) = Some t2
                   \<and> tier_rank t1 \<le> tier_rank t2"
    using traffic_light_tier [OF assms, of "Num v1" False]
      traffic_light_tier [OF assms, of "Num v2" False]
      spec_classify_mono [OF le, of e g "th ''stable''" w]
    by blast
next
  assume le: "v1 \<le> v2"
  show "\<exists>t1 t2. status_tier (get_traffic_light_status (Num v1) th True) = Some t1
                   \<and> status_tier (get_traffic_light_status (Num v2) th True) = Some t2
                   \<and> tier_rank t2 \<le> tier_rank t1"
    using traffic_light_tier [OF assms, of "Num v1" True]
      traffic_light_tier [OF assms, of "Num v2" True]
      spec_classify_reverse_antimono [OF le, of e g "th ''stable''" w]
    by blast
qed

theorem traffic_light_cascade_witness:
  "(\<exists>ic lb. get_traffic_light_status (Num (-3)) revenue_growth_band False = Inr (ic, lb, ''warning''))
   \<and> (\<exists>t1 t2. status_tier (get_traffic_light_status (Num (-3)) revenue_growth_band False) = Some t1
         \<and> status_tier (get_traffic_light_status (Num 7) revenue_growth_band False) = Some t2
         \<and> tier_rank t1 \<le> tier_rank t2)"
proof -
  have k: "revenue_growth_band ''excellent'' = Some 15" "revenue_growth_band ''good'' = Some 5"
    "revenue_growth_band ''warning'' = Some (-5)" "revenue_growth_band ''stable'' = Some (-2)"
    by (simp_all add: revenue_growth_band_def)
  have le: "(-3::real) \<le> 7" by simp
  show ?thesis
    using traffic_light_cascade [OF k(1,2,3), of "Num (-3)" False "-3" 7] le
    by (simp add: k(4))
qed

text \<open>
  The claim as it is worded, "a smaller value never yields a better tier", does not hold
  for every classification request: in reverse mode, on the committed-versus-budget band
  of the source, the smaller value 0.8 is classified excellent and the larger value 1.5
  critical.
\<close>

theorem traffic_light_reverse_counterexample:
  "(0.8::real) \<le> 1.5
   \<and> status_tier (get_traffic_light_status (Num 0.8) committed_vs_budget_band True)
        = Some ''excellent''
   \<and> status_tier (get_traffic_light_status (Num 1.5) committed_vs_budget_band True)
        = Some ''critical''
   \<and> \<not> tier_rank ''excellent'' \<le> tier_rank ''critical''"
  by (simp add: get_traffic_light_status_def committed_vs_budget_band_def status_tier_def
      tier_rank_def)

section \<open>Properties of the cost sheet parser\<close>

lemma dict_set_member:
  "(k', v') \<in> set (dict_set kvs k v) \<Longrightarrow> v' = v \<or> (k', v') \<in> set kvs"
  by (induction kvs) (auto split: if_splits)

lemma dict_set_values: "set (map snd (dict_set kvs k v)) \<subseteq> insert v (set (map snd kvs))"
  using dict_set_member [of _ _ kvs k v] by force

lemma make_work_package_ok:
  "wp_derived_ok (make_work_package item_str d a c ctc n n1 act)"
  by (simp add: wp_derived_ok_def make_work_package_def)

lemma parse_cost_row_wps:
  assumes "\<forall>wp \<in> set (map snd (snd st)). wp_derived_ok wp"
  shows "\<forall>wp \<in> set (map snd (snd (parse_cost_row r st))). wp_derived_ok wp"
proof -
  have "set (map snd (snd (parse_cost_row r st)))
          \<subseteq> set (map snd (snd st))
            \<union> {make_work_package (strip (row_item r)) (row_description r) (row_as_sold r)
                 (row_committed r) (row_ctc r) (row_fct_n r) (row_fct_n1 r) (row_actuals r)}"
    using dict_set_values [of "snd st" "strip (row_item r)"]
    by (auto simp: parse_cost_row_def Let_def simp del: set_map)
  with assms make_work_package_ok show ?thesis by blast
qed

lemma fold_parse_cost_row_wps:
  assumes "\<forall>wp \<in> set (map snd (snd st)). wp_derived_ok wp"
  shows "\<forall>wp \<in> set (map snd (snd (fold parse_cost_row rows st))). wp_derived_ok wp"
  using assms
proof (induction rows arbitrary: st)
  case Nil
  then show ?case by simp
next
  case (Cons r rows)
  have "\<forall>wp \<in> set (map snd (snd (parse_cost_row r st))). wp_derived_ok wp"
    by (rule parse_cost_row_wps [OF Cons.prems])
  from Cons.IH [OF this] show ?case by simp
qed

lemma parse_cost_row_margins:
  assumes "margins_unset (fst st)"
  shows "margins_unset (fst (parse_cost_row r st))"
  using assms by (simp add: parse_cost_row_def Let_def margins_unset_def)

lemma fold_parse_cost_row_margins:
  assumes "margins_unset (fst st)"
  shows "margins_unset (fst (fold parse_cost_row rows st))"
  using assms
proof (induction rows arbitrary: st)
  case Nil
  then show ?case by simp
next
  case (Cons r rows)
  from Cons.IH [OF parse_cost_row_margins [OF Cons.prems]] show ?case by simp
qed

lemma parse_cost_rows_margins: "margins_unset (fst (parse_cost_rows rows))"
  unfolding parse_cost_rows_def
  by (rule fold_parse_cost_row_margins) (simp add: margins_unset_def cost_analysis_init_def)

lemma parse_cost_breakdown_wps:
  "\<forall>wp \<in> set (wp_values (snd (parse_cost_breakdown rows contract_value))). wp_derived_ok wp"
proof -
  have "\<forall>wp \<in> set (map snd (snd (fold parse_cost_row rows (cost_analysis_init, [])))).
          wp_derived_ok wp"
    by (rule fold_parse_cost_row_wps) simp
  then show ?thesis
    by (simp add: parse_cost_breakdown_def parse_cost_rows_def wp_values_def Let_def)
qed

lemma period_variance_positive_base:
  "previous_value > 0 \<Longrightarrow>
     calculate_period_variance current_value previous_value
       = (current_value - previous_value) / previous_value * 100"
  by (simp add: calculate_period_variance_def)

text \<open>
  Claim C3, as the code has it. Every work package of a parsed cost sheet with
  as_sold > 0 has variance_pct = calculate_period_variance(fct_n, as_sold), which is
  \<open>(fct_n - as_sold) / as_sold * 100\<close> there; every work package with as_sold \<le> 0
  has variance_pct = 0, whatever its forecast.
\<close>

theorem work_package_variance_pct:
  assumes "wp \<in> set (wp_values (snd (parse_cost_breakdown rows contract_value)))"
  shows "(wp_as_sold wp > 0 \<longrightarrow>
            wp_variance_pct wp = calculate_period_variance (wp_fct_n wp) (wp_as_sold wp)
          \<and> wp_variance_pct wp = (wp_fct_n wp - wp_as_sold wp) / wp_as_sold wp * 100)
       \<and> (wp_as_sold wp \<le> 0 \<longrightarrow> wp_variance_pct wp = 0)"
proof -
  from assms parse_cost_breakdown_wps have ok: "wp_derived_ok wp" by blast
  show ?thesis
  proof (cases "wp_as_sold wp > 0")
    case True
    with ok have "wp_variance_pct wp = calculate_period_variance (wp_fct_n wp) (wp_as_sold wp)"
      by (simp add: wp_derived_ok_def)
    with True period_variance_positive_base [OF True, of "wp_fct_n wp"] show ?thesis by simp
  next
    case False
    with ok have "wp_variance_pct wp = 0" by (simp add: wp_derived_ok_def)
    with False show ?thesis by simp
  qed
qed

lemma example_rows_parsed:
  "wp_values (snd (parse_cost_breakdown
      [example_row ''W1'' ''Civil Works'' a1 m1 n1, example_row ''W2'' ''Boiler'' a2 m2 n2] cv))
   = [make_work_package ''W1'' ''Civil Works'' a1 0 0 n1 m1 0,
      make_work_package ''W2'' ''Boiler'' a2 0 0 n2 m2 0]"
  by (simp add: parse_cost_breakdown_def parse_cost_rows_def parse_cost_row_def example_row_def
      Let_def strip_def is_space_def upper_def upper_char_def wp_values_def
      cost_analysis_init_def)

theorem work_package_variance_pct_witness:
  "wp_variance_pct (make_work_package ''W1'' ''Civil Works'' 200 0 0 250 0 0) = 25
   \<and> wp_variance_pct (make_work_package ''W2'' ''Boiler'' 0 0 0 50 0 0) = 0"
proof -
  let ?rows = "[example_row ''W1'' ''Civil Works'' 200 0 250, example_row ''W2'' ''Boiler'' 0 0 50]"
  let ?w1 = "make_work_package ''W1'' ''Civil Works'' 200 0 0 250 0 0"
  let ?w2 = "make_work_package ''W2'' ''Boiler'' 0 0 0 50 0 0"
  have m1: "?w1 \<in> set (wp_values (snd (parse_cost_breakdown ?rows 1000)))"
    by (simp add: example_rows_parsed)
  have m2: "?w2 \<in> set (wp_values (snd (parse_cost_breakdown ?rows 1000)))"
    by (simp add: example_rows_parsed)
  have f: "wp_as_sold ?w1 = 200" "wp_fct_n ?w1 = 250" "wp_as_sold ?w2 = 0"
    by (simp_all add: make_work_package_def)
  have a: "wp_variance_pct ?w1 = 25"
    using work_package_variance_pct [OF m1] by (simp add: f)
  have b: "wp_variance_pct ?w2 = 0"
    using work_package_variance_pct [OF m2] by (simp add: f)
  from a b show ?thesis by simp
qed

text \<open>
  The claim as it is worded fails at a cost sheet with one row, as_sold = 0 and
  fct_n = 50: the period variance of (50, 0) is 100, the stored variance_pct is 0.
\<close>

theorem work_package_variance_pct_counterexample:
  "wp_values (snd (parse_cost_breakdown [example_row ''W2'' ''Boiler'' 0 0 50] 1000))
     = [make_work_package ''W2'' ''Boiler'' 0 0 0 50 0 0]
   \<and> wp_as_sold (make_work_package ''W2'' ''Boiler'' 0 0 0 50 0 0) = 0
   \<and> wp_fct_n (make_work_package ''W2'' ''Boiler'' 0 0 0 50 0 0) = 50
   \<and> calculate_period_variance 50 0 = 100
   \<and> wp_variance_pct (make_work_package ''W2'' ''Boiler'' 0 0 0 50 0 0) = 0"
  by (simp add: parse_cost_breakdown_def parse_cost_rows_def parse_cost_row_def example_row_def
      Let_def strip_def is_space_def upper_def upper_char_def wp_values_def
      cost_analysis_init_def make_work_package_def calculate_period_variance_def)

lemma set_committed_ratio_fields:
  "selling_price_as_sold (set_committed_ratio x) = selling_price_as_sold x"
  "ec_total_as_sold (set_committed_ratio x) = ec_total_as_sold x"
  "ic_total_as_sold (set_committed_ratio x) = ic_total_as_sold x"
  "cm1_value_as_sold (set_committed_ratio x) = cm1_value_as_sold x"
  "cm1_pct_as_sold (set_committed_ratio x) = cm1_pct_as_sold x"
  "cm2_value_as_sold (set_committed_ratio x) = cm2_value_as_sold x"
  "cm2_pct_as_sold (set_committed_ratio x) = cm2_pct_as_sold x"
  "selling_price_fct_n1 (set_committed_ratio x) = selling_price_fct_n1 x"
  "ec_total_fct_n1 (set_committed_ratio x) = ec_total_fct_n1 x"
  "ic_total_fct_n1 (set_committed_ratio x) = ic_total_fct_n1 x"
  "cm1_value_fct_n1 (set_committed_ratio x) = cm1_value_fct_n1 x"
  "cm1_pct_fct_n1 (set_committed_ratio x) = cm1_pct_fct_n1 x"
  "cm2_value_fct_n1 (set_committed_ratio x) = cm2_value_fct_n1 x"
  "cm2_pct_fct_n1 (set_committed_ratio x) = cm2_pct_fct_n1 x"
  "selling_price_fct_n (set_committed_ratio x) = selling_price_fct_n x"
  "ec_total_fct_n (set_committed_ratio x) = ec_total_fct_n x"
  "ic_total_fct_n (set_committed_ratio x) = ic_total_fct_n x"
  "cm1_value_fct_n (set_committed_ratio x) = cm1_value_fct_n x"
  "cm1_pct_fct_n (set_committed_ratio x) = cm1_pct_fct_n x"
  "cm2_value_fct_n (set_committed_ratio x) = cm2_value_fct_n x"
  "cm2_pct_fct_n (set_committed_ratio x) = cm2_pct_fct_n x"
  by (simp_all add: set_committed_ratio_def)

lemma margins_as_sold_fields:
  "selling_price_as_sold (margins_as_sold x) = selling_price_as_sold x"
  "ec_total_as_sold (margins_as_sold x) = ec_total_as_sold x"
  "ic_total_as_sold (margins_as_sold x) = ic_total_as_sold x"
  "selling_price_fct_n1 (margins_as_sold x) = selling_price_fct_n1 x"
  "ec_total_fct_n1 (margins_as_sold x) = ec_total_fct_n1 x"
  "ic_total_fct_n1 (margins_as_sold x) = ic_total_fct_n1 x"
  "selling_price_fct_n (margins_as_sold x) = selling_price_fct_n x"
  "ec_total_fct_n (margins_as_sold x) = ec_total_fct_n x"
  "ic_total_fct_n (margins_as_sold x) = ic_total_fct_n x"
  "cm1_value_fct_n1 (margins_as_sold x) = cm1_value_fct_n1 x"
  "cm1_pct_fct_n1 (margins_as_sold x) = cm1_pct_fct_n1 x"
  "cm2_value_fct_n1 (margins_as_sold x) = cm2_value_fct_n1 x"
  "cm2_pct_fct_n1 (margins_as_sold x) = cm2_pct_fct_n1 x"
  "cm1_value_fct_n (margins_as_sold x) = cm1_value_fct_n x"
  "cm1_pct_fct_n (margins_as_sold x) = cm1_pct_fct_n x"
  "cm2_value_fct_n (margins_as_sold x) = cm2_value_fct_n x"
  "cm2_pct_fct_n (margins_as_sold x) = cm2_pct_fct_n x"
  by (simp_all add: margins_as_sold_def Let_def)

lemma margins_as_sold_own:
  "cm1_value_as_sold (margins_as_sold x) = (if selling_price_as_sold x > 0 then selling_price_as_sold x - ec_total_as_sold x else cm1_value_as_sold x)"
  "cm2_value_as_sold (margins_as_sold x) = (if selling_price_as_sold x > 0 then selling_price_as_sold x - ec_total_as_sold x - ic_total_as_sold x else cm2_value_as_sold x)"
  "cm1_pct_as_sold (margins_as_sold x) = (if selling_price_as_sold x > 0 then (selling_price_as_sold x - ec_total_as_sold x) / selling_price_as_sold x * 100 else cm1_pct_as_sold x)"
  "cm2_pct_as_sold (margins_as_sold x) = (if selling_price_as_sold x > 0 then (selling_price_as_sold x - ec_total_as_sold x - ic_total_as_sold x) / selling_price_as_sold x * 100 else cm2_pct_as_sold x)"
  by (simp_all add: margins_as_sold_def Let_def)

lemma margins_fct_n1_fields:
  "selling_price_as_sold (margins_fct_n1 x) = selling_price_as_sold x"
  "ec_total_as_sold (margins_fct_n1 x) = ec_total_as_sold x"
  "ic_total_as_sold (margins_fct_n1 x) = ic_total_as_sold x"
  "selling_price_fct_n1 (margins_fct_n1 x) = selling_price_fct_n1 x"
  "ec_total_fct_n1 (margins_fct_n1 x) = ec_total_fct_n1 x"
  "ic_total_fct_n1 (margins_fct_n1 x) = ic_total_fct_n1 x"
  "selling_price_fct_n (margins_fct_n1 x) = selling_price_fct_n x"
  "ec_total_fct_n (margins_fct_n1 x) = ec_total_fct_n x"
  "ic_total_fct_n (margins_fct_n1 x) = ic_total_fct_n x"
  "cm1_value_as_sold (margins_fct_n1 x) = cm1_value_as_sold x"
  "cm1_pct_as_sold (margins_fct_n1 x) = cm1_pct_as_sold x"
  "cm2_value_as_sold (margins_fct_n1 x) = cm2_value_as_sold x"
  "cm2_pct_as_sold (margins_fct_n1 x) = cm2_pct_as_sold x"
  "cm1_value_fct_n (margins_fct_n1 x) = cm1_value_fct_n x"
  "cm1_pct_fct_n (margins_fct_n1 x) = cm1_pct_fct_n x"
  "cm2_value_fct_n (margins_fct_n1 x) = cm2_value_fct_n x"
  "cm2_pct_fct_n (margins_fct_n1 x) = cm2_pct_fct_n x"
  by (simp_all add: margins_fct_n1_def Let_def)

lemma margins_fct_n1_own:
  "cm1_value_fct_n1 (margins_fct_n1 x) = (if selling_price_fct_n1 x > 0 then selling_price_fct_n1 x - ec_total_fct_n1 x else cm1_value_fct_n1 x)"
  "cm2_value_fct_n1 (margins_fct_n1 x) = (if selling_price_fct_n1 x > 0 then selling_price_fct_n1 x - ec_total_fct_n1 x - ic_total_fct_n1 x else cm2_value_fct_n1 x)"
  "cm1_pct_fct_n1 (margins_fct_n1 x) = (if selling_price_fct_n1 x > 0 then (selling_price_fct_n1 x - ec_total_fct_n1 x) / selling_price_fct_n1 x * 100 else cm1_pct_fct_n1 x)"
  "cm2_pct_fct_n1 (margins_fct_n1 x) = (if selling_price_fct_n1 x > 0 then (selling_price_fct_n1 x - ec_total_fct_n1 x - ic_total_fct_n1 x) / selling_price_fct_n1 x * 100 else cm2_pct_fct_n1 x)"
  by (simp_all add: margins_fct_n1_def Let_def)

lemma margins_fct_n_fields:
  "selling_price_as_sold (margins_fct_n x) = selling_price_as_sold x"
  "ec_total_as_sold (margins_fct_n x) = ec_total_as_sold x"
  "ic_total_as_sold (margins_fct_n x) = ic_total_as_sold x"
  "selling_price_fct_n1 (margins_fct_n x) = selling_price_fct_n1 x"
  "ec_total_fct_n1 (margins_fct_n x) = ec_total_fct_n1 x"
  "ic_total_fct_n1 (margins_fct_n x) = ic_total_fct_n1 x"
  "selling_price_fct_n (margins_fct_n x) = selling_price_fct_n x"
  "ec_total_fct_n (margins_fct_n x) = ec_total_fct_n x"
  "ic_total_fct_n (margins_fct_n x) = ic_total_fct_n x"
  "cm1_value_as_sold (margins_fct_n x) = cm1_value_as_sold x"
  "cm1_pct_as_sold (margins_fct_n x) = cm1_pct_as_sold x"
  "cm2_value_as_sold (margins_fct_n x) = cm2_value_as_sold x"
  "cm2_pct_as_sold (margins_fct_n x) = cm2_pct_as_sold x"
  "cm1_value_fct_n1 (margins_fct_n x) = cm1_value_fct_n1 x"
  "cm1_pct_fct_n1 (margins_fct_n x) = cm1_pct_fct_n1 x"
  "cm2_value_fct_n1 (margins_fct_n x) = cm2_value_fct_n1 x"
  "cm2_pct_fct_n1 (margins_fct_n x) = cm2_pct_fct_n1 x"
  by (simp_all add: margins_fct_n_def Let_def)

lemma margins_fct_n_own:
  "cm1_value_fct_n (margins_fct_n x) = (if selling_price_fct_n x > 0 then selling_price_fct_n x - ec_total_fct_n x else cm1_value_fct_n x)"
  "cm2_value_fct_n (margins_fct_n x) = (if selling_price_fct_n x > 0 then selling_price_fct_n x - ec_total_fct_n x - ic_total_fct_n x else cm2_value_fct_n x)"
  "cm1_pct_fct_n (margins_fct_n x) = (if selling_price_fct_n x > 0 then (selling_price_fct_n x - ec_total_fct_n x) / selling_price_fct_n x * 100 else cm1_pct_fct_n x)"
  "cm2_pct_fct_n (margins_fct_n x) = (if selling_price_fct_n x > 0 then (selling_price_fct_n x - ec_total_fct_n x - ic_total_fct_n x) / selling_price_fct_n x * 100 else cm2_pct_fct_n x)"
  by (simp_all add: margins_fct_n_def Let_def)

lemma selling_price_fallback_fields:
  "ec_total_as_sold (selling_price_fallback cv x) = ec_total_as_sold x"
  "ic_total_as_sold (selling_price_fallback cv x) = ic_total_as_sold x"
  "cm1_value_as_sold (selling_price_fallback cv x) = cm1_value_as_sold x"
  "cm1_pct_as_sold (selling_price_fallback cv x) = cm1_pct_as_sold x"
  "cm2_value_as_sold (selling_price_fallback cv x) = cm2_value_as_sold x"
  "cm2_pct_as_sold (selling_price_fallback cv x) = cm2_pct_as_sold x"
  "ec_total_fct_n1 (selling_price_fallback cv x) = ec_total_fct_n1 x"
  "ic_total_fct_n1 (selling_price_fallback cv x) = ic_total_fct_n1 x"
  "cm1_value_fct_n1 (selling_price_fallback cv x) = cm1_value_fct_n1 x"
  "cm1_pct_fct_n1 (selling_price_fallback cv x) = cm1_pct_fct_n1 x"
  "cm2_value_fct_n1 (selling_price_fallback cv x) = cm2_value_fct_n1 x"
  "cm2_pct_fct_n1 (selling_price_fallback cv x) = cm2_pct_fct_n1 x"
  "ec_total_fct_n (selling_price_fallback cv x) = ec_total_fct_n x"
  "ic_total_fct_n (selling_price_fallback cv x) = ic_total_fct_n x"
  "cm1_value_fct_n (selling_price_fallback cv x) = cm1_value_fct_n x"
  "cm1_pct_fct_n (selling_price_fallback cv x) = cm1_pct_fct_n x"
  "cm2_value_fct_n (selling_price_fallback cv x) = cm2_value_fct_n x"
  "cm2_pct_fct_n (selling_price_fallback cv x) = cm2_pct_fct_n x"
  by (simp_all add: selling_price_fallback_def)

lemmas margin_stage_simps =
  set_committed_ratio_fields
  selling_price_fallback_fields
  margins_as_sold_fields
  margins_fct_n1_fields
  margins_fct_n_fields
  margins_as_sold_own
  margins_fct_n1_own
  margins_fct_n_own

lemma derive_margins_as_sold:
  assumes "margins_unset ca" and "ca' = derive_margins contract_value ca"
  shows "selling_price_as_sold ca' > 0 \<longrightarrow>
           cm1_value_as_sold ca' = selling_price_as_sold ca' - ec_total_as_sold ca'
         \<and> cm2_value_as_sold ca' = selling_price_as_sold ca' - ec_total_as_sold ca' - ic_total_as_sold ca'"
    and "selling_price_as_sold ca' \<le> 0 \<longrightarrow>
           cm1_value_as_sold ca' = 0 \<and> cm2_value_as_sold ca' = 0
         \<and> cm1_pct_as_sold ca' = 0 \<and> cm2_pct_as_sold ca' = 0"
proof -
  from assms(1) have z: "cm1_value_as_sold ca = 0" "cm2_value_as_sold ca = 0"
      "cm1_pct_as_sold ca = 0" "cm2_pct_as_sold ca = 0"
    by (simp_all add: margins_unset_def)
  show "selling_price_as_sold ca' > 0 \<longrightarrow>
           cm1_value_as_sold ca' = selling_price_as_sold ca' - ec_total_as_sold ca'
         \<and> cm2_value_as_sold ca' = selling_price_as_sold ca' - ec_total_as_sold ca' - ic_total_as_sold ca'"
    unfolding assms(2) derive_margins_def by (simp add: margin_stage_simps)
  show "selling_price_as_sold ca' \<le> 0 \<longrightarrow>
           cm1_value_as_sold ca' = 0 \<and> cm2_value_as_sold ca' = 0
         \<and> cm1_pct_as_sold ca' = 0 \<and> cm2_pct_as_sold ca' = 0"
    unfolding assms(2) derive_margins_def by (simp add: margin_stage_simps z)
qed

lemma derive_margins_fct_n1:
  assumes "margins_unset ca" and "ca' = derive_margins contract_value ca"
  shows "selling_price_fct_n1 ca' > 0 \<longrightarrow>
           cm1_value_fct_n1 ca' = selling_price_fct_n1 ca' - ec_total_fct_n1 ca'
         \<and> cm2_value_fct_n1 ca' = selling_price_fct_n1 ca' - ec_total_fct_n1 ca' - ic_total_fct_n1 ca'"
    and "selling_price_fct_n1 ca' \<le> 0 \<longrightarrow>
           cm1_value_fct_n1 ca' = 0 \<and> cm2_value_fct_n1 ca' = 0
         \<and> cm1_pct_fct_n1 ca' = 0 \<and> cm2_pct_fct_n1 ca' = 0"
proof -
  from assms(1) have z: "cm1_value_fct_n1 ca = 0" "cm2_value_fct_n1 ca = 0"
      "cm1_pct_fct_n1 ca = 0" "cm2_pct_fct_n1 ca = 0"
    by (simp_all add: margins_unset_def)
  show "selling_price_fct_n1 ca' > 0 \<longrightarrow>
           cm1_value_fct_n1 ca' = selling_price_fct_n1 ca' - ec_total_fct_n1 ca'
         \<and> cm2_value_fct_n1 ca' = selling_price_fct_n1 ca' - ec_total_fct_n1 ca' - ic_total_fct_n1 ca'"
    unfolding assms(2) derive_margins_def by (simp add: margin_stage_simps)
  show "selling_price_fct_n1 ca' \<le> 0 \<longrightarrow>
           cm1_value_fct_n1 ca' = 0 \<and> cm2_value_fct_n1 ca' = 0
         \<and> cm1_pct_fct_n1 ca' = 0 \<and> cm2_pct_fct_n1 ca' = 0"
    unfolding assms(2) derive_margins_def by (simp add: margin_stage_simps z)
qed

lemma derive_margins_fct_n:
  assumes "margins_unset ca" and "ca' = derive_margins contract_value ca"
  shows "selling_price_fct_n ca' > 0 \<longrightarrow>
           cm1_value_fct_n ca' = selling_price_fct_n ca' - ec_total_fct_n ca'
         \<and> cm2_value_fct_n ca' = selling_price_fct_n ca' - ec_total_fct_n ca' - ic_total_fct_n ca'"
    and "selling_price_fct_n ca' \<le> 0 \<longrightarrow>
           cm1_value_fct_n ca' = 0 \<and> cm2_value_fct_n ca' = 0
         \<and> cm1_pct_fct_n ca' = 0 \<and> cm2_pct_fct_n ca' = 0"
proof -
  from assms(1) have z: "cm1_value_fct_n ca = 0" "cm2_value_fct_n ca = 0"
      "cm1_pct_fct_n ca = 0" "cm2_pct_fct_n ca = 0"
    by (simp_all add: margins_unset_def)
  show "selling_price_fct_n ca' > 0 \<longrightarrow>
           cm1_value_fct_n ca' = selling_price_fct_n ca' - ec_total_fct_n ca'
         \<and> cm2_value_fct_n ca' = selling_price_fct_n ca' - ec_total_fct_n ca' - ic_total_fct_n ca'"
    unfolding assms(2) derive_margins_def by (simp add: margin_stage_simps)
  show "selling_price_fct_n ca' \<le> 0 \<longrightarrow>
           cm1_value_fct_n ca' = 0 \<and> cm2_value_fct_n ca' = 0
         \<and> cm1_pct_fct_n ca' = 0 \<and> cm2_pct_fct_n ca' = 0"
    unfolding assms(2) derive_margins_def by (simp add: margin_stage_simps z)
qed

lemma parse_cost_breakdown_fst:
  "fst (parse_cost_breakdown rows contract_value)
     = derive_margins contract_value (fst (parse_cost_rows rows))"
  by (simp add: parse_cost_breakdown_def Let_def)

text \<open>
  Claim C7. In the cost analysis of a parsed cost sheet, for each of the three periods
  (as sold, fct_n1, fct_n): when the selling price of the period is greater than 0, the
  stored margins satisfy CM2_value = CM1_value - IC = selling_price - EC - IC, with
  CM1_value = selling_price - EC, exactly; when the selling price of the period is 0
  (or below), or was absent and replaced by a contract value that is 0, the CM1 and CM2
  values and percentages of the period are left at 0.
\<close>

theorem margin_identity:
  assumes "ca = fst (parse_cost_breakdown rows contract_value)"
  shows "(selling_price_as_sold ca > 0 \<longrightarrow>
            cm2_value_as_sold ca = cm1_value_as_sold ca - ic_total_as_sold ca
          \<and> cm1_value_as_sold ca - ic_total_as_sold ca
              = selling_price_as_sold ca - ec_total_as_sold ca - ic_total_as_sold ca)
       \<and> (selling_price_fct_n1 ca > 0 \<longrightarrow>
            cm2_value_fct_n1 ca = cm1_value_fct_n1 ca - ic_total_fct_n1 ca
          \<and> cm1_value_fct_n1 ca - ic_total_fct_n1 ca
              = selling_price_fct_n1 ca - ec_total_fct_n1 ca - ic_total_fct_n1 ca)
       \<and> (selling_price_fct_n ca > 0 \<longrightarrow>
            cm2_value_fct_n ca = cm1_value_fct_n ca - ic_total_fct_n ca
          \<and> cm1_value_fct_n ca - ic_total_fct_n ca
              = selling_price_fct_n ca - ec_total_fct_n ca - ic_total_fct_n ca)
       \<and> (selling_price_as_sold ca \<le> 0 \<longrightarrow>
            cm1_value_as_sold ca = 0 \<and> cm2_value_as_sold ca = 0
          \<and> cm1_pct_as_sold ca = 0 \<and> cm2_pct_as_sold ca = 0)
       \<and> (selling_price_fct_n1 ca \<le> 0 \<longrightarrow>
            cm1_value_fct_n1 ca = 0 \<and> cm2_value_fct_n1 ca = 0
          \<and> cm1_pct_fct_n1 ca = 0 \<and> cm2_pct_fct_n1 ca = 0)
       \<and> (selling_price_fct_n ca \<le> 0 \<longrightarrow>
            cm1_value_fct_n ca = 0 \<and> cm2_value_fct_n ca = 0
          \<and> cm1_pct_fct_n ca = 0 \<and> cm2_pct_fct_n ca = 0)"
proof -
  have u: "margins_unset (fst (parse_cost_rows rows))"
    by (rule parse_cost_rows_margins)
  have d: "ca = derive_margins contract_value (fst (parse_cost_rows rows))"
    using assms by (simp add: parse_cost_breakdown_fst)
  note a = derive_margins_as_sold [OF u d]
  note b = derive_margins_fct_n1 [OF u d]
  note c = derive_margins_fct_n [OF u d]
  show ?thesis
  proof (intro conjI)
    show "selling_price_as_sold ca > 0 \<longrightarrow>
            cm2_value_as_sold ca = cm1_value_as_sold ca - ic_total_as_sold ca
          \<and> cm1_value_as_sold ca - ic_total_as_sold ca
              = selling_price_as_sold ca - ec_total_as_sold ca - ic_total_as_sold ca"
      using a(1) by simp
    show "selling_price_fct_n1 ca > 0 \<longrightarrow>
            cm2_value_fct_n1 ca = cm1_value_fct_n1 ca - ic_total_fct_n1 ca
          \<and> cm1_value_fct_n1 ca - ic_total_fct_n1 ca
              = selling_price_fct_n1 ca - ec_total_fct_n1 ca - ic_total_fct_n1 ca"
      using b(1) by simp
    show "selling_price_fct_n ca > 0 \<longrightarrow>
            cm2_value_fct_n ca = cm1_value_fct_n ca - ic_total_fct_n ca
          \<and> cm1_value_fct_n ca - ic_total_fct_n ca
              = selling_price_fct_n ca - ec_total_fct_n ca - ic_total_fct_n ca"
      using c(1) by simp
    show "selling_price_as_sold ca \<le> 0 \<longrightarrow>
            cm1_value_as_sold ca = 0 \<and> cm2_value_as_sold ca = 0
          \<and> cm1_pct_as_sold ca = 0 \<and> cm2_pct_as_sold ca = 0"
      by (rule a(2))
    show "selling_price_fct_n1 ca \<le> 0 \<longrightarrow>
            cm1_value_fct_n1 ca = 0 \<and> cm2_value_fct_n1 ca = 0
          \<and> cm1_pct_fct_n1 ca = 0 \<and> cm2_pct_fct_n1 ca = 0"
      by (rule b(2))
    show "selling_price_fct_n ca \<le> 0 \<longrightarrow>
            cm1_value_fct_n ca = 0 \<and> cm2_value_fct_n ca = 0
          \<and> cm1_pct_fct_n ca = 0 \<and> cm2_pct_fct_n ca = 0"
      by (rule c(2))
  qed
qed

lemma example_sheet_parsed:
  "fst (parse_cost_rows
      [example_row ''Selling Price'' ''Contract'' 1000 0 1200,
       example_row ''Total EC'' ''External costs'' 600 650 700,
       example_row ''Total IL'' ''Internal labour'' 200 210 220])
   = cost_analysis_init
       \<lparr> selling_price_as_sold := 1000, selling_price_fct_n1 := 0, selling_price_fct_n := 1200,
         selling_price_found := True,
         ec_total_as_sold := 600, ec_total_fct_n1 := 650, ec_total_fct_n := 700,
         ic_total_as_sold := 200, ic_total_fct_n1 := 210, ic_total_fct_n := 220 \<rparr>"
  by (simp add: parse_cost_rows_def parse_cost_row_def example_row_def
      Let_def strip_def is_space_def upper_def upper_char_def cost_analysis_init_def)

theorem margin_identity_witness:
  "cm2_value_as_sold (fst (parse_cost_breakdown
      [example_row ''Selling Price'' ''Contract'' 1000 0 1200,
       example_row ''Total EC'' ''External costs'' 600 650 700,
       example_row ''Total IL'' ''Internal labour'' 200 210 220] 0)) = 200
   \<and> cm2_value_fct_n1 (fst (parse_cost_breakdown
      [example_row ''Selling Price'' ''Contract'' 1000 0 1200,
       example_row ''Total EC'' ''External costs'' 600 650 700,
       example_row ''Total IL'' ''Internal labour'' 200 210 220] 0)) = 0"
proof -
  let ?rows = "[example_row ''Selling Price'' ''Contract'' 1000 0 1200,
       example_row ''Total EC'' ''External costs'' 600 650 700,
       example_row ''Total IL'' ''Internal labour'' 200 210 220]"
  let ?ca = "fst (parse_cost_breakdown ?rows 0)"
  have f: "selling_price_as_sold ?ca = 1000" "ec_total_as_sold ?ca = 600"
    "ic_total_as_sold ?ca = 200" "selling_price_fct_n1 ?ca = 0"
    unfolding parse_cost_breakdown_fst example_sheet_parsed derive_margins_def
    by (simp_all add: margin_stage_simps selling_price_fallback_def cost_analysis_init_def)
  show ?thesis
    using margin_identity [of ?ca ?rows 0] by (simp add: f)
qed

section \<open>Properties of the risk assessment engine\<close>

lemma findings_append: "findings_of_type t (xs @ ys) = findings_of_type t xs @ findings_of_type t ys"
  by (simp add: findings_of_type_def)

lemma no_wp_in_rules:
  "findings_of_type ''WP Performance Risk'' (margin_rule band c) = []"
  "findings_of_type ''WP Performance Risk'' (commitment_rule r) = []"
  "findings_of_type ''WP Performance Risk'' (cost_variance_rule v) = []"
  "findings_of_type ''WP Performance Risk'' (schedule_rule d) = []"
  "findings_of_type ''WP Performance Risk'' (cash_flow_rule d) = []"
  "findings_of_type ''WP Performance Risk'' (revenue_rule d) = []"
  "findings_of_type ''WP Performance Risk'' (contingency_rule d) = []"
  "findings_of_type ''WP Performance Risk'' (buffer_rule d c) = []"
  by (simp_all add: findings_of_type_def margin_rule_def commitment_rule_def
      cost_variance_rule_def schedule_rule_def cash_flow_rule_def revenue_rule_def
      contingency_rule_def buffer_rule_def no_contingency_finding_def Let_def)

lemma no_cr_in_rules:
  "findings_of_type ''Contingency Risk'' (margin_rule band c) = []"
  "findings_of_type ''Contingency Risk'' (commitment_rule r) = []"
  "findings_of_type ''Contingency Risk'' (cost_variance_rule v) = []"
  "findings_of_type ''Contingency Risk'' (schedule_rule d) = []"
  "findings_of_type ''Contingency Risk'' (cash_flow_rule d) = []"
  "findings_of_type ''Contingency Risk'' (revenue_rule d) = []"
  "findings_of_type ''Contingency Risk'' (wp_performance_rule w) = []"
  "findings_of_type ''Contingency Risk'' (buffer_rule d c) = []"
  by (simp_all add: findings_of_type_def margin_rule_def commitment_rule_def
      cost_variance_rule_def schedule_rule_def cash_flow_rule_def revenue_rule_def
      wp_performance_rule_def wp_performance_finding_def buffer_rule_def Let_def)

lemma wp_rule_own:
  "findings_of_type ''WP Performance Risk'' (wp_performance_rule w) = wp_performance_rule w"
  by (simp add: findings_of_type_def wp_performance_rule_def wp_performance_finding_def)

lemma cr_rule_own:
  "findings_of_type ''Contingency Risk'' (contingency_rule d) = contingency_rule d"
  by (simp add: findings_of_type_def contingency_rule_def no_contingency_finding_def)

lemma assess_wp:
  "findings_of_type ''WP Performance Risk'' (assess_project_risks band d)
     = wp_performance_rule (pd_work_packages d)"
  by (simp add: assess_project_risks_def Let_def findings_append no_wp_in_rules wp_rule_own)

lemma assess_cr:
  "findings_of_type ''Contingency Risk'' (assess_project_risks band d) = contingency_rule d"
  by (simp add: assess_project_risks_def Let_def findings_append no_cr_in_rules cr_rule_own)

lemma desc_boiler: "\<not> risk_contingency_desc ''Boiler''"
  by (simp add: risk_contingency_desc_def lower_def lower_char_def)

lemma desc_turbine: "\<not> risk_contingency_desc ''Turbine''"
  by (simp add: risk_contingency_desc_def lower_def lower_char_def)

lemmas example_descs = desc_risk_contingency desc_civil_works desc_boiler desc_turbine

lemma example_project_fields:
  "pd_work_packages (example_project c p wps) = wps"
  "pd_cash_flow_quarterly (example_project c p wps) = []"
  "safe_get_value (example_project c p wps) ''Contract Price'' n_ptd = c"
  "safe_get_value (example_project c p wps) ''POC%'' n_ptd = p"
  by (simp_all add: example_project_def safe_get_value_def)

text \<open>
  Claim C1, as the code has it. For every project and every CM2 band, the risk
  assessment appends the "WP Performance Risk" finding, of severity High, exactly when
  the project has work packages and the number of non-contingency work packages with
  variance_pct > 15, divided by the number of all work packages of the project
  (contingency lines included), is greater than 0.3; it appends it once.
\<close>

theorem wp_performance_risk:
  "findings_of_type ''WP Performance Risk'' (assess_project_risks band d)
     = (if length (pd_work_packages d) > 0
           \<and> real (length (high_variance_wps (pd_work_packages d)))
               / real (length (pd_work_packages d)) > 0.3
        then [wp_performance_finding (pd_work_packages d)] else [])
   \<and> rf_type (wp_performance_finding (pd_work_packages d)) = ''WP Performance Risk''
   \<and> rf_severity (wp_performance_finding (pd_work_packages d)) = ''High''
   \<and> high_variance_wps (pd_work_packages d)
       = filter (\<lambda>wp. wp_variance_pct wp > 15 \<and> \<not> risk_contingency_desc (wp_description wp))
           (map snd (pd_work_packages d))"
  by (simp add: assess_wp wp_performance_rule_def wp_performance_finding_def
      high_variance_wps_def wp_values_def)

theorem wp_performance_risk_witness:
  "findings_of_type ''WP Performance Risk''
     (assess_project_risks default_cm2_band (example_project 10000 50
        [example_wp ''W1'' ''Civil Works'' 1000 1100 1200 20,
         example_wp ''W2'' ''Boiler'' 2000 2300 2360 18,
         example_wp ''W3'' ''Turbine'' 3000 3000 3000 0,
         example_wp ''R1'' ''Risk Contingency'' 600 500 450 0]))
   = [wp_performance_finding
        [example_wp ''W1'' ''Civil Works'' 1000 1100 1200 20,
         example_wp ''W2'' ''Boiler'' 2000 2300 2360 18,
         example_wp ''W3'' ''Turbine'' 3000 3000 3000 0,
         example_wp ''R1'' ''Risk Contingency'' 600 500 450 0]]"
proof -
  let ?wps = "[example_wp ''W1'' ''Civil Works'' 1000 1100 1200 20,
         example_wp ''W2'' ''Boiler'' 2000 2300 2360 18,
         example_wp ''W3'' ''Turbine'' 3000 3000 3000 0,
         example_wp ''R1'' ''Risk Contingency'' 600 500 450 0]"
  have h: "length (high_variance_wps ?wps) = 2"
    by (simp add: high_variance_wps_def wp_values_def example_wp_fields example_descs)
  show ?thesis
    using wp_performance_risk [of default_cm2_band "example_project 10000 50 ?wps"]
    by (simp add: example_project_fields h)
qed

text \<open>
  The claim as it is worded fails at a project with three ordinary work packages, one
  of them 20% over its budget, and one contingency line: one of the three
  non-contingency packages is more than 30% of them, but one of four packages is not
  more than 30%, and no finding is appended.
\<close>

theorem wp_performance_risk_counterexample:
  "spec_wp_concentration
     [example_wp ''W1'' ''Civil Works'' 1000 1100 1200 20,
      example_wp ''W2'' ''Boiler'' 2000 2000 2000 0,
      example_wp ''W3'' ''Turbine'' 3000 3000 3000 0,
      example_wp ''R1'' ''Risk Contingency'' 600 500 450 0]
   \<and> findings_of_type ''WP Performance Risk''
       (assess_project_risks default_cm2_band (example_project 10000 50
          [example_wp ''W1'' ''Civil Works'' 1000 1100 1200 20,
           example_wp ''W2'' ''Boiler'' 2000 2000 2000 0,
           example_wp ''W3'' ''Turbine'' 3000 3000 3000 0,
           example_wp ''R1'' ''Risk Contingency'' 600 500 450 0])) = []"
proof -
  let ?wps = "[example_wp ''W1'' ''Civil Works'' 1000 1100 1200 20,
      example_wp ''W2'' ''Boiler'' 2000 2000 2000 0,
      example_wp ''W3'' ''Turbine'' 3000 3000 3000 0,
      example_wp ''R1'' ''Risk Contingency'' 600 500 450 0]"
  have a: "spec_wp_concentration ?wps"
    by (simp add: spec_wp_concentration_def wp_values_def example_wp_fields example_descs)
  have h: "length (high_variance_wps ?wps) = 1"
    by (simp add: high_variance_wps_def wp_values_def example_wp_fields example_descs)
  have b: "findings_of_type ''WP Performance Risk''
       (assess_project_risks default_cm2_band (example_project 10000 50 ?wps)) = []"
    by (simp add: assess_wp wp_performance_rule_def example_project_fields h)
  from a b show ?thesis by simp
qed

text \<open>
  Claim C8. For every project without a risk-contingency work package and every CM2
  band, the findings of type "Contingency Risk" in the returned list are exactly one: the
  finding of severity High with the recommendation to establish a risk contingency
  budget, whatever the other metrics of the project are. For a project with
  risk-contingency packages the findings of that type are the Medium finding when the
  remaining contingency is below 1% of the contract value, else the High finding when
  it is below 5% with more than 80% consumed, else none: these two branches are taken
  only when contingency entries exist.
\<close>

theorem contingency_risk_findings:
  "(risk_contingencies_of (pd_work_packages d) = [] \<longrightarrow>
      findings_of_type ''Contingency Risk'' (assess_project_risks band d)
        = [no_contingency_finding])
   \<and> (risk_contingencies_of (pd_work_packages d) \<noteq> [] \<longrightarrow>
      findings_of_type ''Contingency Risk'' (assess_project_risks band d)
        = (if contingency_percentage d < 1 then
             [\<lparr> rf_type = ''Contingency Risk'', rf_severity = ''Medium'',
                rf_description = InsufficientContingency (contingency_percentage d),
                rf_impact = ''Medium'',
                rf_recommendation =
                  ''Review risk register and consider contingency replenishment'' \<rparr>]
           else if contingency_percentage d < 5 \<and> contingency_consumption d > 80 then
             [\<lparr> rf_type = ''Contingency Risk'', rf_severity = ''High'',
                rf_description =
                  LowContingency (contingency_percentage d) (contingency_consumption d),
                rf_impact = ''High'',
                rf_recommendation =
                  ''Monitor emerging risks closely, prepare contingency plan'' \<rparr>]
           else []))
   \<and> rf_type no_contingency_finding = ''Contingency Risk''
   \<and> rf_severity no_contingency_finding = ''High''
   \<and> rf_recommendation no_contingency_finding
       = ''Establish risk contingency budget for unforeseen events''"
  by (simp add: assess_cr contingency_rule_def no_contingency_finding_def)

theorem contingency_risk_findings_witness:
  "findings_of_type ''Contingency Risk''
     (assess_project_risks default_cm2_band (example_project 10000 50
        [example_wp ''W1'' ''Civil Works'' 1000 1100 1200 20,
         example_wp ''W2'' ''Boiler'' 2000 2300 2360 18]))
     = [no_contingency_finding]
   \<and> findings_of_type ''Contingency Risk''
     (assess_project_risks default_cm2_band (example_project 10000 50
        [example_wp ''W1'' ''Civil Works'' 1000 1100 1200 20,
         example_wp ''R1'' ''Risk Contingency'' 600 500 450 0])) = []"
proof -
  let ?w1 = "[example_wp ''W1'' ''Civil Works'' 1000 1100 1200 20,
         example_wp ''W2'' ''Boiler'' 2000 2300 2360 18]"
  let ?w2 = "[example_wp ''W1'' ''Civil Works'' 1000 1100 1200 20,
         example_wp ''R1'' ''Risk Contingency'' 600 500 450 0]"
  have r1: "risk_contingencies_of ?w1 = []"
    by (simp add: risk_contingencies_of_def wp_values_def example_wp_fields example_descs)
  have r2: "risk_contingencies_of ?w2 = [snd (example_wp ''R1'' ''Risk Contingency'' 600 500 450 0)]"
    by (simp add: risk_contingencies_of_def wp_values_def example_wp_fields example_descs)
  have p: "contingency_percentage (example_project 10000 50 ?w2) = 4.5"
    by (simp add: contingency_percentage_def example_project_fields r2 example_wp_fields)
  have c: "contingency_consumption (example_project 10000 50 ?w2) = 25"
    by (simp add: contingency_consumption_def example_project_fields r2 example_wp_fields)
  have a: "findings_of_type ''Contingency Risk''
     (assess_project_risks default_cm2_band (example_project 10000 50 ?w1))
     = [no_contingency_finding]"
    using contingency_risk_findings [of "example_project 10000 50 ?w1" default_cm2_band]
    by (simp add: example_project_fields r1)
  have b: "findings_of_type ''Contingency Risk''
     (assess_project_risks default_cm2_band (example_project 10000 50 ?w2)) = []"
    using contingency_risk_findings [of "example_project 10000 50 ?w2" default_cm2_band]
    by (simp add: example_project_fields r2 p c)
  from a b show ?thesis by simp
qed

section \<open>Properties of the margin variability engine\<close>

lemma margin_history_local:
  "has_historical_data (calculate_margin_variability_metrics band d)
     = historical_data_check (pd_cost_analysis d)"
  by (simp add: calculate_margin_variability_metrics_def Let_def)

lemma margin_history_code_condition:
  "has_historical_data (calculate_margin_variability_metrics band d) \<longleftrightarrow>
     (cm2_pct_as_sold (pd_cost_analysis d) \<noteq> 0
        \<and> cm2_pct_as_sold (pd_cost_analysis d) \<noteq> cm2_pct_fct_n (pd_cost_analysis d))
   \<or> (cm2_pct_fct_n1 (pd_cost_analysis d) \<noteq> 0
        \<and> cm2_pct_fct_n1 (pd_cost_analysis d) \<noteq> cm2_pct_fct_n (pd_cost_analysis d))
   \<or> (cm1_pct_as_sold (pd_cost_analysis d) \<noteq> 0
        \<and> cm1_pct_as_sold (pd_cost_analysis d) \<noteq> cm1_pct_fct_n (pd_cost_analysis d))
   \<or> (cm1_pct_fct_n1 (pd_cost_analysis d) \<noteq> 0
        \<and> cm1_pct_fct_n1 (pd_cost_analysis d) \<noteq> cm1_pct_fct_n (pd_cost_analysis d))"
  unfolding margin_history_local historical_data_check_def Let_def
  by (simp only: if_split) blast

lemma margin_no_history_result:
  assumes "\<not> has_historical_data (calculate_margin_variability_metrics band d)"
  shows "calculate_margin_variability_metrics band d =
           NoHistoricalData (cm2_pct_fct_n (pd_cost_analysis d)) (cm1_pct_fct_n (pd_cost_analysis d))
             ''No historical margin data found for variability analysis''"
proof -
  from assms have "\<not> historical_data_check (pd_cost_analysis d)"
    by (simp add: margin_history_local)
  then show ?thesis
    by (simp add: calculate_margin_variability_metrics_def Let_def)
qed

lemma example_sheet_rows:
  "fst (parse_cost_rows
      [example_row ''Selling Price'' ''Contract'' sa sm sn,
       example_row ''Total EC'' ''External costs'' ea em en,
       example_row ''Total IL'' ''Internal labour'' ia im in'])
   = cost_analysis_init
       \<lparr> selling_price_as_sold := sa, selling_price_fct_n1 := sm, selling_price_fct_n := sn,
         selling_price_found := True,
         ec_total_as_sold := ea, ec_total_fct_n1 := em, ec_total_fct_n := en,
         ic_total_as_sold := ia, ic_total_fct_n1 := im, ic_total_fct_n := in' \<rparr>"
  by (simp add: parse_cost_rows_def parse_cost_row_def example_row_def
      Let_def strip_def is_space_def upper_def upper_char_def cost_analysis_init_def)

lemma example_parsed_cost:
  "pd_cost_analysis (example_parsed_project rows c) = fst (parse_cost_breakdown rows c)"
  by (simp add: example_parsed_project_def)

text \<open>
  Claim C2, as the code has it. The margin-variability result has
  has_historical_data = true exactly when, for the CM2 or for the CM1 percentages, the
  as_sold value or the fct_n1 value is not 0 and differs from the fct_n value. That
  implies that two of the three period values differ for CM1 or CM2, and is equivalent
  to it when none of the four as_sold and fct_n1 percentages is 0. When the flag is
  false the analysis is skipped and the result is the "no data" one: the current CM2
  and CM1 percentages and the message.
\<close>

theorem margin_history_flag:
  "(has_historical_data (calculate_margin_variability_metrics band d) \<longleftrightarrow>
       (cm2_pct_as_sold (pd_cost_analysis d) \<noteq> 0
          \<and> cm2_pct_as_sold (pd_cost_analysis d) \<noteq> cm2_pct_fct_n (pd_cost_analysis d))
     \<or> (cm2_pct_fct_n1 (pd_cost_analysis d) \<noteq> 0
          \<and> cm2_pct_fct_n1 (pd_cost_analysis d) \<noteq> cm2_pct_fct_n (pd_cost_analysis d))
     \<or> (cm1_pct_as_sold (pd_cost_analysis d) \<noteq> 0
          \<and> cm1_pct_as_sold (pd_cost_analysis d) \<noteq> cm1_pct_fct_n (pd_cost_analysis d))
     \<or> (cm1_pct_fct_n1 (pd_cost_analysis d) \<noteq> 0
          \<and> cm1_pct_fct_n1 (pd_cost_analysis d) \<noteq> cm1_pct_fct_n (pd_cost_analysis d)))
   \<and> (has_historical_data (calculate_margin_variability_metrics band d) \<longrightarrow>
        spec_has_historical_data (pd_cost_analysis d))
   \<and> (cm2_pct_as_sold (pd_cost_analysis d) \<noteq> 0 \<and> cm2_pct_fct_n1 (pd_cost_analysis d) \<noteq> 0
        \<and> cm1_pct_as_sold (pd_cost_analysis d) \<noteq> 0 \<and> cm1_pct_fct_n1 (pd_cost_analysis d) \<noteq> 0
        \<and> spec_has_historical_data (pd_cost_analysis d) \<longrightarrow>
        has_historical_data (calculate_margin_variability_metrics band d))
   \<and> (\<not> has_historical_data (calculate_margin_variability_metrics band d) \<longrightarrow>
        calculate_margin_variability_metrics band d =
          NoHistoricalData (cm2_pct_fct_n (pd_cost_analysis d)) (cm1_pct_fct_n (pd_cost_analysis d))
            ''No historical margin data found for variability analysis'')"
proof (intro conjI impI)
  show "has_historical_data (calculate_margin_variability_metrics band d) \<longleftrightarrow>
       (cm2_pct_as_sold (pd_cost_analysis d) \<noteq> 0
          \<and> cm2_pct_as_sold (pd_cost_analysis d) \<noteq> cm2_pct_fct_n (pd_cost_analysis d))
     \<or> (cm2_pct_fct_n1 (pd_cost_analysis d) \<noteq> 0
          \<and> cm2_pct_fct_n1 (pd_cost_analysis d) \<noteq> cm2_pct_fct_n (pd_cost_analysis d))
     \<or> (cm1_pct_as_sold (pd_cost_analysis d) \<noteq> 0
          \<and> cm1_pct_as_sold (pd_cost_analysis d) \<noteq> cm1_pct_fct_n (pd_cost_analysis d))
     \<or> (cm1_pct_fct_n1 (pd_cost_analysis d) \<noteq> 0
          \<and> cm1_pct_fct_n1 (pd_cost_analysis d) \<noteq> cm1_pct_fct_n (pd_cost_analysis d))"
    by (rule margin_history_code_condition)
next
  assume "has_historical_data (calculate_margin_variability_metrics band d)"
  then show "spec_has_historical_data (pd_cost_analysis d)"
    unfolding margin_history_code_condition spec_has_historical_data_def spec_two_differ_def
    by blast
next
  assume "cm2_pct_as_sold (pd_cost_analysis d) \<noteq> 0 \<and> cm2_pct_fct_n1 (pd_cost_analysis d) \<noteq> 0
        \<and> cm1_pct_as_sold (pd_cost_analysis d) \<noteq> 0 \<and> cm1_pct_fct_n1 (pd_cost_analysis d) \<noteq> 0
        \<and> spec_has_historical_data (pd_cost_analysis d)"
  then show "has_historical_data (calculate_margin_variability_metrics band d)"
    unfolding margin_history_code_condition spec_has_historical_data_def spec_two_differ_def
    by metis
next
  assume "\<not> has_historical_data (calculate_margin_variability_metrics band d)"
  then show "calculate_margin_variability_metrics band d =
          NoHistoricalData (cm2_pct_fct_n (pd_cost_analysis d)) (cm1_pct_fct_n (pd_cost_analysis d))
            ''No historical margin data found for variability analysis''"
    by (rule margin_no_history_result)
qed

theorem margin_history_flag_witness:
  "has_historical_data (calculate_margin_variability_metrics default_cm2_band
     (example_parsed_project
        [example_row ''Selling Price'' ''Contract'' 1000 1000 1000,
         example_row ''Total EC'' ''External costs'' 600 650 700,
         example_row ''Total IL'' ''Internal labour'' 200 210 220] 1000))
   \<and> spec_has_historical_data (pd_cost_analysis
     (example_parsed_project
        [example_row ''Selling Price'' ''Contract'' 1000 1000 1000,
         example_row ''Total EC'' ''External costs'' 600 650 700,
         example_row ''Total IL'' ''Internal labour'' 200 210 220] 1000))"
proof -
  let ?rows = "[example_row ''Selling Price'' ''Contract'' 1000 1000 1000,
         example_row ''Total EC'' ''External costs'' 600 650 700,
         example_row ''Total IL'' ''Internal labour'' 200 210 220]"
  let ?d = "example_parsed_project ?rows 1000"
  have f: "cm2_pct_as_sold (pd_cost_analysis ?d) = 20" "cm2_pct_fct_n (pd_cost_analysis ?d) = 8"
    unfolding example_parsed_cost parse_cost_breakdown_fst example_sheet_rows derive_margins_def
    by (simp_all add: margin_stage_simps selling_price_fallback_def cost_analysis_init_def)
  show ?thesis
    using margin_history_flag [of default_cm2_band ?d] by (simp add: f)
qed

text \<open>
  The claim as it is worded fails at a cost sheet whose selling price, external and
  internal costs are filled in for the current forecast only: the margins of the two
  earlier periods stay 0, the current CM1 is 20% and the current CM2 12%, so the three
  period values differ, and the flag is false.
\<close>

theorem margin_history_flag_counterexample:
  "spec_has_historical_data (pd_cost_analysis
     (example_parsed_project
        [example_row ''Selling Price'' ''Contract'' 0 0 1000,
         example_row ''Total EC'' ''External costs'' 0 0 800,
         example_row ''Total IL'' ''Internal labour'' 0 0 80] 1000))
   \<and> \<not> has_historical_data (calculate_margin_variability_metrics default_cm2_band
     (example_parsed_project
        [example_row ''Selling Price'' ''Contract'' 0 0 1000,
         example_row ''Total EC'' ''External costs'' 0 0 800,
         example_row ''Total IL'' ''Internal labour'' 0 0 80] 1000))"
proof -
  let ?rows = "[example_row ''Selling Price'' ''Contract'' 0 0 1000,
         example_row ''Total EC'' ''External costs'' 0 0 800,
         example_row ''Total IL'' ''Internal labour'' 0 0 80]"
  let ?d = "example_parsed_project ?rows 1000"
  have f: "cm2_pct_as_sold (pd_cost_analysis ?d) = 0" "cm2_pct_fct_n1 (pd_cost_analysis ?d) = 0"
    "cm2_pct_fct_n (pd_cost_analysis ?d) = 12"
    "cm1_pct_as_sold (pd_cost_analysis ?d) = 0" "cm1_pct_fct_n1 (pd_cost_analysis ?d) = 0"
    "cm1_pct_fct_n (pd_cost_analysis ?d) = 20"
    unfolding example_parsed_cost parse_cost_breakdown_fst example_sheet_rows derive_margins_def
    by (simp_all add: margin_stage_simps selling_price_fallback_def cost_analysis_init_def)
  have a: "spec_has_historical_data (pd_cost_analysis ?d)"
    by (simp add: spec_has_historical_data_def spec_two_differ_def f)
  have b: "\<not> has_historical_data (calculate_margin_variability_metrics default_cm2_band ?d)"
    by (simp add: margin_history_code_condition f)
  from a b show ?thesis by simp
qed

section \<open>Properties of the portfolio aggregator\<close>

lemma accumulate_project_excluded:
  assumes "pe_data project = Some d" and "safe_get_value d ''Contract Price'' n_ptd \<le> 0"
  shows "accumulate_project project m = m"
  using assms by (simp add: accumulate_project_def Let_def)

lemma portfolio_metrics_insert:
  assumes "pe_data project = Some d" and "safe_get_value d ''Contract Price'' n_ptd \<le> 0"
  shows "portfolio_metrics_of (xs @ (pid, project) # ys) = portfolio_metrics_of (xs @ ys)"
  by (simp add: portfolio_metrics_of_def accumulate_project_excluded [OF assms])

lemma summarise_init: "summarise metrics_init = None"
  by (simp add: summarise_def metrics_init_def)

lemma create_is_summarise:
  "create_enhanced_portfolio_summary portfolio_data
     = summarise (portfolio_metrics_of portfolio_data)"
  by (cases portfolio_data)
     (simp_all add: create_enhanced_portfolio_summary_def portfolio_metrics_of_def summarise_init)

text \<open>
  Claim C9. Adding, at any position of the portfolio, a project whose current contract
  value is 0 (or below) changes nothing: the accumulated metrics (all sums, the
  weighted-POC numerators and their denominators, the CPI and SPI totals, the count of
  valid projects, the contingency totals) are those of the portfolio without it, and so
  is the returned summary, field by field; when the portfolio without it has no summary
  (no valid project), the portfolio with it has none either.
\<close>

theorem zero_contract_project_excluded:
  assumes "pe_data project = Some d" and "safe_get_value d ''Contract Price'' n_ptd \<le> 0"
  shows "portfolio_metrics_of (xs @ (pid, project) # ys) = portfolio_metrics_of (xs @ ys)
       \<and> create_enhanced_portfolio_summary (xs @ (pid, project) # ys)
           = create_enhanced_portfolio_summary (xs @ ys)"
  by (simp only: create_is_summarise portfolio_metrics_insert [OF assms])

lemma example_entry_contract:
  "pe_data (example_entry c) =
     Some (example_project c 50 [example_wp ''W1'' ''Civil Works'' 1000 1100 1200 20])"
  by (simp add: example_entry_def)

lemma example_metrics_one:
  "m_valid_projects (portfolio_metrics_of [(''P1'', example_entry 10000)]) = 1"
  "m_total_contract_value_n (portfolio_metrics_of [(''P1'', example_entry 10000)]) = 10000"
  "m_weighted_poc_n (portfolio_metrics_of [(''P1'', example_entry 10000)]) = 500000"
  by (simp_all add: portfolio_metrics_of_def accumulate_project_def example_entry_contract
      example_project_fields Let_def add_contingency_def metrics_init_def)

theorem zero_contract_project_excluded_witness:
  "create_enhanced_portfolio_summary [(''P1'', example_entry 10000), (''P2'', example_entry 0)]
     = create_enhanced_portfolio_summary [(''P1'', example_entry 10000)]
   \<and> m_valid_projects
        (portfolio_metrics_of [(''P1'', example_entry 10000), (''P2'', example_entry 0)]) = 1
   \<and> m_total_contract_value_n
        (portfolio_metrics_of [(''P1'', example_entry 10000), (''P2'', example_entry 0)]) = 10000
   \<and> m_weighted_poc_n
        (portfolio_metrics_of [(''P1'', example_entry 10000), (''P2'', example_entry 0)]) = 500000"
proof -
  have z: "safe_get_value
      (example_project 0 50 [example_wp ''W1'' ''Civil Works'' 1000 1100 1200 20])
      ''Contract Price'' n_ptd \<le> 0"
    by (simp add: example_project_fields)
  show ?thesis
    using zero_contract_project_excluded [OF example_entry_contract z,
        of "[(''P1'', example_entry 10000)]" "''P2''" "[]"]
    by (simp add: example_metrics_one)
qed

end
